theory Spec2Isabelle
  imports
    Complex_Main
    "HOL-Library.Char_ord"
    "HOL-Library.List_Lexorder"
    "HOL-Library.Multiset"
    "HOL-Library.Sublist"
begin

section \<open>The layout engine of the pencil timeline renderer\<close>

text \<open>
  A shallow embedding of the layout methods of the class \<open>TimelineRenderer\<close>
  (src/PencilCanvas.js): \<open>getUniqueThemes\<close>, \<open>getThemeContent\<close>,
  \<open>calculateLabelHeight\<close>, \<open>calculateThemeContentHeight\<close>,
  \<open>calculateRequiredDimensions\<close>, \<open>processProject\<close>,
  \<open>calculateTimelinePositions\<close>, \<open>resolveCollisionsWithThemes\<close> and the pressure
  fallback of \<open>drawProjectLine\<close>.

  Conventions of the embedding.
  \<^item> A JavaScript number that goes through a division is a \<open>jsnum\<close>: an exact rational, or
    one of the three non-finite values. The rounding error of IEEE doubles is not modelled;
    the two zeros are one value (the only divisor is the window duration, a difference of
    two time values, which is \<open>+0\<close> when it is zero).
  \<^item> An optional property is an \<open>option\<close>; \<open>None\<close> is \<open>undefined\<close> or \<open>null\<close>.
    An array property that is absent behaves in every method like the empty array (each
    loop over it is guarded), so it is a plain list.
  \<^item> \<open>new Date(s)\<close> and \<open>parseFloat(s)\<close> are built-ins of the language: they are
    parameters \<open>parseDate\<close> and \<open>parseFloat\<close> of the methods that call them. A
    \<open>Date\<close> object is a \<open>date\<close>: a time value in milliseconds, or \<open>Invalid Date\<close>, whose
    time value is \<open>NaN\<close>.
  \<^item> \<open>throw new Error(msg)\<close> is the result \<open>Inl (Error msg)\<close>; the \<open>TypeError\<close> that
    reading a property of \<open>undefined\<close> throws is \<open>Inl TypeError\<close>.
  \<^item> The scene shares its project objects between several arrays and writes their \<open>y\<close>
    more than once, so project objects live in a store and arrays hold references.
  \<^item> The object \<open>themeGroups\<close> is a plain object: besides the groups stored in it, it has
    the properties that every object inherits from \<open>Object.prototype\<close>.
\<close>

subsection \<open>JavaScript numbers\<close>

datatype jsnum = Num rat | PosInf | NegInf | NaN

fun js_sub :: "jsnum \<Rightarrow> jsnum \<Rightarrow> jsnum" where
  \<comment> \<open>\<open>a - b\<close>\<close>
  "js_sub NaN b = NaN"
| "js_sub a NaN = NaN"
| "js_sub (Num a) (Num b) = Num (a - b)"
| "js_sub (Num a) PosInf = NegInf"
| "js_sub (Num a) NegInf = PosInf"
| "js_sub PosInf PosInf = NaN"
| "js_sub PosInf b = PosInf"
| "js_sub NegInf NegInf = NaN"
| "js_sub NegInf b = NegInf"

fun js_div :: "jsnum \<Rightarrow> jsnum \<Rightarrow> jsnum" where
  \<comment> \<open>\<open>a / b\<close>; a zero divisor is \<open>+0\<close>.\<close>
  "js_div NaN b = NaN"
| "js_div a NaN = NaN"
| "js_div (Num a) (Num b) =
     (if b \<noteq> 0 then Num (a / b)
      else if a = 0 then NaN
      else if 0 < a then PosInf else NegInf)"
| "js_div (Num a) b = Num 0"
| "js_div PosInf (Num b) = (if 0 \<le> b then PosInf else NegInf)"
| "js_div NegInf (Num b) = (if 0 \<le> b then NegInf else PosInf)"
| "js_div a b = NaN"

fun js_mul :: "jsnum \<Rightarrow> rat \<Rightarrow> jsnum" where
  "js_mul (Num a) w = Num (a * w)"
| "js_mul PosInf w = (if 0 < w then PosInf else if w < 0 then NegInf else NaN)"
| "js_mul NegInf w = (if 0 < w then NegInf else if w < 0 then PosInf else NaN)"
| "js_mul NaN w = NaN"

fun js_add :: "rat \<Rightarrow> jsnum \<Rightarrow> jsnum" where
  "js_add m (Num a) = Num (m + a)"
| "js_add m PosInf = PosInf"
| "js_add m NegInf = NegInf"
| "js_add m NaN = NaN"

fun Math_round :: "jsnum \<Rightarrow> jsnum" where
  \<comment> \<open>\<open>Math.round\<close>: the nearest integer, a half rounded towards \<open>+\<infinity>\<close>.\<close>
  "Math_round (Num a) = Num (of_int (round a))"
| "Math_round PosInf = PosInf"
| "Math_round NegInf = NegInf"
| "Math_round NaN = NaN"

fun truthy :: "jsnum \<Rightarrow> bool" where
  \<comment> \<open>A number is falsy when it is zero or \<open>NaN\<close>.\<close>
  "truthy (Num a) = (a \<noteq> 0)"
| "truthy PosInf = True"
| "truthy NegInf = True"
| "truthy NaN = False"

fun js_le :: "jsnum \<Rightarrow> jsnum \<Rightarrow> bool" where
  \<comment> \<open>\<open>a <= b\<close>: every comparison with \<open>NaN\<close> is false.\<close>
  "js_le NaN b = False"
| "js_le a NaN = False"
| "js_le NegInf b = True"
| "js_le a PosInf = True"
| "js_le (Num a) (Num b) = (a \<le> b)"
| "js_le a b = False"

fun js_less :: "jsnum \<Rightarrow> jsnum \<Rightarrow> bool" where
  \<comment> \<open>\<open>a < b\<close>.\<close>
  "js_less NaN b = False"
| "js_less a NaN = False"
| "js_less PosInf b = False"
| "js_less a NegInf = False"
| "js_less (Num a) (Num b) = (a < b)"
| "js_less a b = True"

definition js_min2 :: "jsnum \<Rightarrow> jsnum \<Rightarrow> jsnum" where
  "js_min2 a b = (if a = NaN \<or> b = NaN then NaN else if js_le a b then a else b)"

definition js_max2 :: "jsnum \<Rightarrow> jsnum \<Rightarrow> jsnum" where
  "js_max2 a b = (if a = NaN \<or> b = NaN then NaN else if js_le a b then b else a)"

definition Math_min :: "jsnum list \<Rightarrow> jsnum" where
  \<comment> \<open>\<open>Math.min(...xs)\<close>; \<open>Infinity\<close> for no argument.\<close>
  "Math_min xs = fold (\<lambda>x m. js_min2 m x) xs PosInf"

definition Math_max :: "jsnum list \<Rightarrow> jsnum" where
  \<comment> \<open>\<open>Math.max(...xs)\<close>; \<open>-Infinity\<close> for no argument.\<close>
  "Math_max xs = fold (\<lambda>x m. js_max2 m x) xs NegInf"

definition truthy_str :: "string option \<Rightarrow> bool" where
  \<comment> \<open>An absent property and the empty string are falsy.\<close>
  "truthy_str v = (case v of None \<Rightarrow> False | Some s \<Rightarrow> s \<noteq> [])"

definition or_num :: "rat option \<Rightarrow> rat \<Rightarrow> rat" where
  \<comment> \<open>\<open>a || b\<close> for an optional number \<open>a\<close>: absent and 0 are falsy.\<close>
  "or_num a b = (case a of None \<Rightarrow> b | Some q \<Rightarrow> if q \<noteq> 0 then q else b)"

subsection \<open>Dates\<close>

datatype date = Date int | Invalid_Date

fun valueOf :: "date \<Rightarrow> jsnum" where
  \<comment> \<open>The number a \<open>Date\<close> object is converted to by \<open><\<close>, \<open><=\<close> and \<open>-\<close>.\<close>
  "valueOf (Date t) = Num (of_int t)"
| "valueOf Invalid_Date = NaN"

subsection \<open>The input dataset\<close>

record project =
  name :: string
  theme :: "string option"
  tbeg :: string
  tend :: string
  tailEnd :: "string option"
  color :: "string option"
  pencilPressure :: "rat option"
  pencilThickness :: "rat option"

text \<open>
  An epic of the dataset carries its members under \<open>projectLines\<close> and its pressure as a
  string (\<open>"pencilPressure": "0.3"\<close>).
\<close>

record epic =
  name :: string
  theme :: "string option"
  pencilPressure :: "string option"
  projectLines :: "project list"

record dataset =
  tbeg :: string
  tend :: string
  pencilPressure :: "rat option"
  pencilResolution :: "rat option"
  projectLines :: "project list"
  epics :: "epic list"

subsection \<open>The renderer's constants\<close>

text \<open>
  The constructor sets \<open>this.margin = { top: 120, bottom: 60, left: 120, right: 60 }\<close> and
  \<open>this.lineHeight = 40\<close>; \<open>displayWidth\<close> is 1200 after \<open>setupCanvas\<close> and after every
  \<open>resizeCanvas\<close>, which assigns it the width that \<open>calculateRequiredDimensions\<close> returns.
\<close>

definition margin_top :: int where "margin_top = 120"
definition margin_bottom :: int where "margin_bottom = 60"
definition margin_left :: int where "margin_left = 120"
definition margin_right :: int where "margin_right = 60"
definition lineHeight :: int where "lineHeight = 40"
definition displayWidth :: int where "displayWidth = 1200"

subsection \<open>Processing one project\<close>

datatype error = Error string | TypeError

text \<open>The object \<open>processProject\<close> returns: the project's own properties and the derived ones.\<close>

record positioned_project = project +
  x1 :: jsnum
  x2 :: jsnum
  x3 :: "jsnum option"
  y :: int
  startDate :: date
  endDate :: date
  tailEndDate :: "date option"
  epicIndex :: "nat option"

definition rangeMessage :: "'a project_scheme \<Rightarrow> string" where
  "rangeMessage project =
     ''Invalid date range for project \"'' @ project.name project @ ''\": end date ('' @
     project.tend project @ '') is before start date ('' @ project.tbeg project @ '')''"

definition tailMessage :: "'a project_scheme \<Rightarrow> string \<Rightarrow> string" where
  "tailMessage project tail =
     ''Invalid tailEnd for project \"'' @ project.name project @ ''\": tailEnd ('' @
     tail @ '') must be after tend ('' @ project.tend project @ '')''"

definition processProject ::
  "(string \<Rightarrow> date) \<Rightarrow> project \<Rightarrow> date \<Rightarrow> jsnum \<Rightarrow> int \<Rightarrow> nat option
     \<Rightarrow> error + positioned_project" where
  "processProject parseDate project startDate' totalDuration timelineWidth epicIndex' =
     (let projStart = parseDate (project.tbeg project);
          projEnd = parseDate (project.tend project);
          projTailEnd = (case project.tailEnd project of
                           None \<Rightarrow> None
                         | Some s \<Rightarrow> if s \<noteq> [] then Some (parseDate s) else None)
      in if js_less (valueOf projEnd) (valueOf projStart)
           then Inl (Error (rangeMessage project))
         else if (case projTailEnd of
                    None \<Rightarrow> False
                  | Some t \<Rightarrow> js_le (valueOf t) (valueOf projEnd))
           then Inl (Error (tailMessage project (case project.tailEnd project of
                                                    None \<Rightarrow> [] | Some s \<Rightarrow> s)))
         else
           let startRatio = js_div (js_sub (valueOf projStart) (valueOf startDate')) totalDuration;
               endRatio = js_div (js_sub (valueOf projEnd) (valueOf startDate')) totalDuration;
               tailEndRatio = (case projTailEnd of
                                 None \<Rightarrow> None
                               | Some t \<Rightarrow>
                                   Some (js_div (js_sub (valueOf t) (valueOf startDate'))
                                           totalDuration));
               x1 = js_add (of_int margin_left) (js_mul startRatio (of_int timelineWidth));
               x2 = js_add (of_int margin_left) (js_mul endRatio (of_int timelineWidth));
               x3 = (case tailEndRatio of
                       None \<Rightarrow> None
                     | Some r \<Rightarrow> Some (js_add (of_int margin_left) (js_mul r (of_int timelineWidth))))
           in Inr (project.extend project
                \<lparr> x1 = Math_round x1,
                  x2 = Math_round x2,
                  x3 = (case x3 of
                          None \<Rightarrow> None
                        | Some v \<Rightarrow> if truthy v then Some (Math_round v) else None),
                  y = 0,
                  startDate = projStart,
                  endDate = projEnd,
                  tailEndDate = projTailEnd,
                  epicIndex = epicIndex' \<rparr>))"

subsection \<open>Collecting the themes\<close>

definition set_add :: "'a list \<Rightarrow> 'a \<Rightarrow> 'a list" where
  \<comment> \<open>\<open>Set.prototype.add\<close>: a \<open>Set\<close> keeps its elements in insertion order.\<close>
  "set_add s v = (if v \<in> set s then s else s @ [v])"

definition add_theme :: "string option \<Rightarrow> string list \<Rightarrow> string list" where
  \<comment> \<open>\<open>if (x && x.theme) themes.add(x.theme)\<close>\<close>
  "add_theme t themes =
     (case t of None \<Rightarrow> themes | Some s \<Rightarrow> if s \<noteq> [] then set_add themes s else themes)"

text \<open>
  \<open>Array.prototype.sort\<close> without a comparator orders strings by their code units; the
  model orders them by their characters, lexicographically.
\<close>

definition getUniqueThemes :: "dataset option \<Rightarrow> string list" where
  "getUniqueThemes data =
     (let themes = [];
          themes = (case data of
                      None \<Rightarrow> themes
                    | Some d \<Rightarrow>
                        fold (\<lambda>project. add_theme (project.theme project))
                          (dataset.projectLines d) themes);
          themes = (case data of
                      None \<Rightarrow> themes
                    | Some d \<Rightarrow>
                        fold (\<lambda>epic. add_theme (epic.theme epic)) (dataset.epics d) themes);
          themeList = sort themes
      in themeList)"

subsection \<open>The dimension calculator\<close>

record theme_content =
  projects :: "project list"
  epics :: "epic list"

definition getThemeContent :: "dataset option \<Rightarrow> string \<Rightarrow> theme_content" where
  "getThemeContent data themeName =
     (case data of
        None \<Rightarrow> \<lparr> theme_content.projects = [], epics = [] \<rparr>
      | Some d \<Rightarrow>
          \<lparr> theme_content.projects =
              filter (\<lambda>project. project.theme project = Some themeName) (dataset.projectLines d),
            epics = filter (\<lambda>epic. epic.theme epic = Some themeName) (dataset.epics d) \<rparr>)"

primrec split_on :: "char \<Rightarrow> string \<Rightarrow> string list" where
  \<comment> \<open>\<open>s.split(c)\<close> for a one-character separator: one more piece than separators.\<close>
  "split_on c [] = [[]]"
| "split_on c (x # xs) =
     (if x = c then [] # split_on c xs
      else (case split_on c xs of [] \<Rightarrow> [[x]] | w # ws \<Rightarrow> (x # w) # ws))"

definition calculateLabelHeight :: "string \<Rightarrow> int" where
  \<comment> \<open>\<open>lines\<close> is \<open>Math.ceil(words.length / maxWordsPerLine)\<close>.\<close>
  "calculateLabelHeight themeName =
     (let words = split_on (CHR '' '') themeName;
          maxWordsPerLine = 2;
          lines = (length words + maxWordsPerLine - 1) div maxWordsPerLine
      in int lines * 20)"

text \<open>
  \<open>calculateThemeContentHeight(projects, epics)\<close> reads of every epic only its property
  \<open>projects\<close>. The second argument of the model is that property for each epic, in order;
  \<open>None\<close> where the epic object has no such property.
\<close>

definition calculateThemeContentHeight :: "'a list \<Rightarrow> 'b list option list \<Rightarrow> int" where
  "calculateThemeContentHeight projects' epics_projects =
     (let totalLines = length projects';
          totalLines = fold (\<lambda>epic_projects totalLines.
                          case epic_projects of
                            None \<Rightarrow> totalLines
                          | Some ps \<Rightarrow> totalLines + length ps)
                        epics_projects totalLines
      in max 80 (int totalLines * lineHeight))"

definition epic_projects_property :: "epic \<Rightarrow> project list option" where
  \<comment> \<open>\<open>epic.projects\<close> of an epic of the dataset: the members are under \<open>projectLines\<close>,
      and no property \<open>projects\<close> exists.\<close>
  "epic_projects_property epic = None"

record dimensions =
  width :: int
  height :: int

definition contentHeight_required :: "dataset option \<Rightarrow> string \<Rightarrow> int" where
  \<comment> \<open>The constant \<open>contentHeight\<close> of the loop over the themes in
      \<open>calculateRequiredDimensions\<close>.\<close>
  "contentHeight_required data theme' =
     (let themeGroup = getThemeContent data theme'
      in calculateThemeContentHeight (theme_content.projects themeGroup)
           (map epic_projects_property (theme_content.epics themeGroup)))"

definition themeHeight_required :: "dataset option \<Rightarrow> string \<Rightarrow> int" where
  \<comment> \<open>The constant \<open>themeHeight\<close> of the same loop.\<close>
  "themeHeight_required data theme' =
     (let labelHeight = calculateLabelHeight theme';
          contentHeight = contentHeight_required data theme';
          themeHeight = max (labelHeight + 20) (contentHeight + 40)
      in themeHeight)"

definition calculateRequiredDimensions :: "dataset option \<Rightarrow> dimensions" where
  "calculateRequiredDimensions data =
     (case data of
        None \<Rightarrow> \<lparr> width = 1200, height = 800 \<rparr>
      | Some d \<Rightarrow>
          let requiredWidth = 1200;
              themes = getUniqueThemes data;
              totalHeight = margin_top + margin_bottom + 100;
              totalHeight = fold (\<lambda>theme totalHeight. totalHeight + themeHeight_required data theme)
                              themes totalHeight;
              bottomBuffer = 200;
              totalHeight = totalHeight + bottomBuffer;
              finalHeight = max 800 totalHeight
          in \<lparr> width = requiredWidth, height = finalHeight \<rparr>)"

subsection \<open>The scene\<close>

text \<open>
  The objects that \<open>processProject\<close> returns are collected in the array \<open>allProjects\<close>;
  the epics built by \<open>calculateTimelinePositions\<close> and the theme blocks built by
  \<open>resolveCollisionsWithThemes\<close> hold the same objects. A reference to a project object is
  its index in \<open>allProjects\<close>, and that array, with the writes to \<open>y\<close> applied, is the
  store of the scene. A reference to an epic object is its index in the array \<open>epics\<close>.
\<close>

record positioned_epic =
  name :: string
  theme :: "string option"
  projects :: "nat list"
  x1 :: jsnum
  x2 :: jsnum
  epicIndex :: nat
  pencilPressure :: jsnum
  minY :: "int option"
  maxY :: "int option"

record theme_group =
  projects :: "nat list"
  epics :: "nat list"

record theme_block =
  name :: string
  y :: int
  height :: int
  projects :: "nat list"
  epics :: "nat list"

record scene =
  store :: "positioned_project list"
  projects :: "nat list"
  epics :: "positioned_epic list"
  themes :: "theme_block list"

definition projects_of :: "scene \<Rightarrow> nat list \<Rightarrow> positioned_project list" where
  \<comment> \<open>The objects an array of references holds, as the scene leaves them.\<close>
  "projects_of sc refs = map (\<lambda>r. scene.store sc ! r) refs"

subsection \<open>Resolving the vertical positions\<close>

definition theme_or_default :: "string option \<Rightarrow> string" where
  \<comment> \<open>\<open>x.theme || 'Default'\<close>\<close>
  "theme_or_default t = (case t of None \<Rightarrow> ''Default'' | Some s \<Rightarrow> if s \<noteq> [] then s else ''Default'')"

text \<open>
  \<open>themeGroups\<close> starts as \<open>{}\<close>. Reading \<open>themeGroups[theme]\<close> gives the group stored
  under that name, or else, for the name of a property of \<open>Object.prototype\<close>, the inherited
  value (a function, or the prototype itself for \<open>__proto__\<close>: truthy, and with no property
  \<open>projects\<close> or \<open>epics\<close>), or else \<open>undefined\<close>.
\<close>

definition inherited_properties :: "string list" where
  \<comment> \<open>The names of the properties of \<open>Object.prototype\<close>.\<close>
  "inherited_properties =
     [''constructor'', ''__defineGetter__'', ''__defineSetter__'', ''hasOwnProperty'',
      ''__lookupGetter__'', ''__lookupSetter__'', ''isPrototypeOf'', ''propertyIsEnumerable'',
      ''toString'', ''valueOf'', ''__proto__'', ''toLocaleString'']"

datatype property = Undefined | Group theme_group | Inherited

definition get_property :: "(string \<rightharpoonup> theme_group) \<Rightarrow> string \<Rightarrow> property" where
  \<comment> \<open>\<open>themeGroups[theme]\<close>\<close>
  "get_property themeGroups theme' =
     (case themeGroups theme' of
        Some g \<Rightarrow> Group g
      | None \<Rightarrow> if theme' \<in> set inherited_properties then Inherited else Undefined)"

definition create_group :: "(string \<rightharpoonup> theme_group) \<Rightarrow> string \<Rightarrow> (string \<rightharpoonup> theme_group)" where
  \<comment> \<open>\<open>if (!themeGroups[theme]) themeGroups[theme] = { projects: [], epics: [] }\<close>\<close>
  "create_group themeGroups theme' =
     (if get_property themeGroups theme' = Undefined
      then themeGroups(theme' \<mapsto> \<lparr> theme_group.projects = [], epics = [] \<rparr>)
      else themeGroups)"

definition group_project ::
  "nat \<times> positioned_project \<Rightarrow> (string \<rightharpoonup> theme_group) \<Rightarrow> error + (string \<rightharpoonup> theme_group)" where
  \<comment> \<open>\<open>themeGroups[theme].projects.push(project)\<close> throws when \<open>themeGroups[theme]\<close> is
      an inherited value: its \<open>projects\<close> is \<open>undefined\<close>.\<close>
  "group_project rp themeGroups =
     (let theme = theme_or_default (project.theme (snd rp));
          themeGroups = create_group themeGroups theme
      in (case get_property themeGroups theme of
            Group g \<Rightarrow>
              Inr (themeGroups(theme \<mapsto>
                     g\<lparr> theme_group.projects := theme_group.projects g @ [fst rp] \<rparr>))
          | Inherited \<Rightarrow> Inl TypeError
          | Undefined \<Rightarrow> Inl TypeError))"

definition group_epic ::
  "nat \<times> positioned_epic \<Rightarrow> (string \<rightharpoonup> theme_group) \<Rightarrow> error + (string \<rightharpoonup> theme_group)" where
  \<comment> \<open>\<open>themeGroups[theme].epics.push(epic)\<close>, likewise.\<close>
  "group_epic re themeGroups =
     (let theme = theme_or_default (positioned_epic.theme (snd re));
          themeGroups = create_group themeGroups theme
      in (case get_property themeGroups theme of
            Group g \<Rightarrow>
              Inr (themeGroups(theme \<mapsto>
                     g\<lparr> theme_group.epics := theme_group.epics g @ [fst re] \<rparr>))
          | Inherited \<Rightarrow> Inl TypeError
          | Undefined \<Rightarrow> Inl TypeError))"

fun foldE :: "('a \<Rightarrow> 's \<Rightarrow> error + 's) \<Rightarrow> 'a list \<Rightarrow> 's \<Rightarrow> error + 's" where
  \<comment> \<open>\<open>xs.forEach(f)\<close> for an \<open>f\<close> that may throw, the state passed along.\<close>
  "foldE f [] s = Inr s"
| "foldE f (v # vs) s = (case f v s of Inl e \<Rightarrow> Inl e | Inr s' \<Rightarrow> foldE f vs s')"

definition place_project ::
  "nat \<Rightarrow> positioned_project list \<times> int \<times> nat list
     \<Rightarrow> positioned_project list \<times> int \<times> nat list" where
  \<comment> \<open>\<open>project.y = projectY; themeObj.projects.push(project); projectY += this.lineHeight\<close>,
      the body of both placing loops. In the loop over the members of an epic,
      \<open>projects.find(p => p === epicProject)\<close> is the member itself, so the two writes of
      \<open>y\<close> there are one. Every reference is an index of the store.\<close>
  "place_project r st =
     (case st of (objs, projectY, placed) \<Rightarrow>
        (objs[r := (objs ! r)\<lparr> positioned_project.y := projectY \<rparr>],
         projectY + lineHeight,
         placed @ [r]))"

definition min_list_int :: "int list \<Rightarrow> int" where
  \<comment> \<open>\<open>Math.min(...ys)\<close> of a non-empty array of integers.\<close>
  "min_list_int ys = fold min (tl ys) (hd ys)"

definition max_list_int :: "int list \<Rightarrow> int" where
  \<comment> \<open>\<open>Math.max(...ys)\<close> of a non-empty array of integers.\<close>
  "max_list_int ys = fold max (tl ys) (hd ys)"

definition place_epic ::
  "nat \<Rightarrow> positioned_project list \<times> positioned_epic list \<times> int \<times> nat list
     \<Rightarrow> positioned_project list \<times> positioned_epic list \<times> int \<times> nat list" where
  "place_epic e st =
     (case st of (objs, eps, projectY, placed) \<Rightarrow>
        let epicProjects = positioned_epic.projects (eps ! e)
        in if length epicProjects > 0 then
             (case fold place_project epicProjects (objs, projectY, placed) of
                (objs', projectY', placed') \<Rightarrow>
                  let projectYs = map (\<lambda>r. positioned_project.y (objs' ! r)) epicProjects
                  in (objs',
                      eps[e := (eps ! e)\<lparr> minY := Some (min_list_int projectYs),
                                          maxY := Some (max_list_int projectYs) \<rparr>],
                      projectY', placed'))
           else (objs, eps, projectY, placed))"

definition layout_group ::
  "string \<Rightarrow> theme_group
     \<Rightarrow> positioned_project list \<times> positioned_epic list \<times> theme_block list \<times> int
     \<Rightarrow> positioned_project list \<times> positioned_epic list \<times> theme_block list \<times> int" where
  \<comment> \<open>The body of \<open>themes.forEach\<close> in \<open>resolveCollisionsWithThemes\<close>, for a \<open>group\<close>
      that is a group.\<close>
  "layout_group theme' group' st =
     (case st of (objs, eps, themeData, currentY) \<Rightarrow>
        let labelHeight = calculateLabelHeight theme';
            contentHeight = calculateThemeContentHeight (theme_group.projects group')
                              (map (\<lambda>e. Some (positioned_epic.projects (eps ! e)))
                                 (theme_group.epics group'));
            themeHeight = max (labelHeight + 20) (contentHeight + 40)
        in (case fold place_project (theme_group.projects group') (objs, currentY + 20, []) of
              (objs1, projectY, placed) \<Rightarrow>
                (case fold place_epic (theme_group.epics group') (objs1, eps, projectY, placed) of
                   (objs2, eps2, projectY2, placed2) \<Rightarrow>
                     let themeObj = \<lparr> theme_block.name = theme',
                                      y = currentY,
                                      height = themeHeight,
                                      projects = placed2,
                                      epics = theme_group.epics group' \<rparr>
                     in (objs2, eps2, themeData @ [themeObj], currentY + themeHeight))))"

definition layout_theme ::
  "(string \<rightharpoonup> theme_group) \<Rightarrow> string
     \<Rightarrow> positioned_project list \<times> positioned_epic list \<times> theme_block list \<times> int
     \<Rightarrow> error + positioned_project list \<times> positioned_epic list \<times> theme_block list \<times> int" where
  \<comment> \<open>\<open>const group = themeGroups[theme] || { projects: [], epics: [] }\<close> and the body. For an
      inherited value, \<open>group.projects\<close> and \<open>group.epics\<close> are \<open>undefined\<close>: the two
      heights are computed without a throw (\<open>calculateThemeContentHeight\<close> tests its
      arguments with \<open>Array.isArray\<close>), and \<open>group.projects.forEach\<close> throws.\<close>
  "layout_theme themeGroups theme' st =
     (case get_property themeGroups theme' of
        Undefined \<Rightarrow> Inr (layout_group theme' \<lparr> theme_group.projects = [], epics = [] \<rparr> st)
      | Group g \<Rightarrow> Inr (layout_group theme' g st)
      | Inherited \<Rightarrow> Inl TypeError)"

definition resolveCollisionsWithThemes ::
  "positioned_project list \<Rightarrow> positioned_epic list \<Rightarrow> string list \<Rightarrow> error + scene" where
  "resolveCollisionsWithThemes projects' epics' themes' =
     (case foldE group_project (enumerate 0 projects') Map.empty of
        Inl e \<Rightarrow> Inl e
      | Inr themeGroups \<Rightarrow>
          (case foldE group_epic (enumerate 0 epics') themeGroups of
             Inl e \<Rightarrow> Inl e
           | Inr themeGroups \<Rightarrow>
               (case foldE (layout_theme themeGroups) themes' (projects', epics', [], margin_top) of
                  Inl e \<Rightarrow> Inl e
                | Inr (objs, eps, themeData, currentY) \<Rightarrow>
                    let allPositionedProjects = concat (map theme_block.projects themeData)
                    in Inr \<lparr> scene.store = objs,
                             projects = allPositionedProjects,
                             epics = eps,
                             themes = themeData \<rparr>)))"

subsection \<open>The layout pass\<close>

fun mapE :: "('a \<Rightarrow> error + 'b) \<Rightarrow> 'a list \<Rightarrow> error + 'b list" where
  \<comment> \<open>\<open>xs.map(f)\<close> for an \<open>f\<close> that may throw: the first throw ends the loop.\<close>
  "mapE f [] = Inr []"
| "mapE f (v # vs) =
     (case f v of
        Inl e \<Rightarrow> Inl e
      | Inr w \<Rightarrow> (case mapE f vs of Inl e \<Rightarrow> Inl e | Inr ws \<Rightarrow> Inr (w # ws)))"

definition inherit_theme :: "epic \<Rightarrow> positioned_project \<Rightarrow> positioned_project" where
  \<comment> \<open>\<open>if (!processedProject.theme && epic.theme) processedProject.theme = epic.theme\<close>\<close>
  "inherit_theme epic processedProject =
     (if \<not> truthy_str (project.theme processedProject) \<and> truthy_str (epic.theme epic)
      then processedProject\<lparr> project.theme := epic.theme epic \<rparr>
      else processedProject)"

definition epicPressure :: "(string option \<Rightarrow> jsnum) \<Rightarrow> dataset \<Rightarrow> epic \<Rightarrow> jsnum" where
  \<comment> \<open>\<open>parseFloat(epic.pencilPressure) || this.data.pencilPressure || 0.85\<close>\<close>
  "epicPressure parseFloat d epic =
     (let parsed = parseFloat (epic.pencilPressure epic)
      in if truthy parsed then parsed else Num (or_num (dataset.pencilPressure d) (85 / 100)))"

definition x3_or_x2 :: "positioned_project \<Rightarrow> jsnum" where
  \<comment> \<open>\<open>p.x3 || p.x2\<close>\<close>
  "x3_or_x2 p =
     (case positioned_project.x3 p of
        None \<Rightarrow> positioned_project.x2 p
      | Some v \<Rightarrow> if truthy v then v else positioned_project.x2 p)"

fun processEpics ::
  "(string \<Rightarrow> date) \<Rightarrow> (string option \<Rightarrow> jsnum) \<Rightarrow> dataset \<Rightarrow> date \<Rightarrow> jsnum \<Rightarrow> int \<Rightarrow> nat
     \<Rightarrow> epic list \<Rightarrow> positioned_project list \<times> positioned_epic list
     \<Rightarrow> error + positioned_project list \<times> positioned_epic list" where
  \<comment> \<open>\<open>this.data.epics.forEach((epic, epicIndex) => ...)\<close> from index \<open>i\<close> on; the state
      is the pair of \<open>allProjects\<close> and \<open>epics\<close>.\<close>
  "processEpics parseDate parseFloat d start totalDuration timelineWidth i [] st = Inr st"
| "processEpics parseDate parseFloat d start totalDuration timelineWidth i (epic # rest) st =
     (case mapE (\<lambda>project.
                   map_sum id (inherit_theme epic)
                     (processProject parseDate project start totalDuration timelineWidth (Some i)))
             (epic.projectLines epic) of
        Inl e \<Rightarrow> Inl e
      | Inr epicProjects \<Rightarrow>
          (case st of (allProjects, eps) \<Rightarrow>
             let refs = [length allProjects ..< length allProjects + length epicProjects];
                 allProjects = allProjects @ epicProjects;
                 eps =
                   (if length epicProjects > 0 then
                      let minX = Math_min (map positioned_project.x1 epicProjects);
                          maxX = Math_max (map x3_or_x2 epicProjects)
                      in eps @
                         [\<lparr> positioned_epic.name = epic.name epic,
                            theme = epic.theme epic,
                            projects = refs,
                            x1 = minX,
                            x2 = maxX,
                            epicIndex = i,
                            pencilPressure = epicPressure parseFloat d epic,
                            minY = None,
                            maxY = None \<rparr>]
                    else eps)
             in processEpics parseDate parseFloat d start totalDuration timelineWidth (Suc i) rest
                  (allProjects, eps)))"

definition calculateTimelinePositions ::
  "(string \<Rightarrow> date) \<Rightarrow> (string option \<Rightarrow> jsnum) \<Rightarrow> dataset option \<Rightarrow> error + scene" where
  "calculateTimelinePositions parseDate parseFloat data =
     (case data of
        None \<Rightarrow> Inr \<lparr> scene.store = [], projects = [], epics = [], themes = [] \<rparr>
      | Some d \<Rightarrow>
          let start = parseDate (dataset.tbeg d);
              end_date = parseDate (dataset.tend d);
              totalDuration = js_sub (valueOf end_date) (valueOf start);
              timelineWidth = displayWidth - margin_left - margin_right;
              themes = getUniqueThemes data
          in (case mapE (\<lambda>project.
                           processProject parseDate project start totalDuration timelineWidth None)
                     (dataset.projectLines d) of
                Inl e \<Rightarrow> Inl e
              | Inr standaloneProjects \<Rightarrow>
                  (case processEpics parseDate parseFloat d start totalDuration timelineWidth 0
                          (dataset.epics d) (standaloneProjects, []) of
                     Inl e \<Rightarrow> Inl e
                   | Inr (allProjects, eps) \<Rightarrow>
                       resolveCollisionsWithThemes allProjects eps themes)))"

subsection \<open>The pressure of a project's stroke\<close>

definition drawProjectLine_pressure :: "dataset \<Rightarrow> 'a project_scheme \<Rightarrow> rat" where
  \<comment> \<open>The constant \<open>pressure\<close> of \<open>drawProjectLine\<close>:
      \<open>project.pencilPressure || this.data.pencilPressure || 0.85\<close>\<close>
  "drawProjectLine_pressure d project =
     or_num (project.pencilPressure project) (or_num (dataset.pencilPressure d) (85 / 100))"

subsection \<open>The built-ins on the strings of the examples\<close>

text \<open>
  \<open>new Date(s)\<close> on a date-only ISO string \<open>YYYY-MM-DD\<close> that names a day of the calendar
  is midnight UTC of that day, in milliseconds since 1970-01-01, and \<open>Invalid Date\<close> on a
  string that is no date at all; \<open>parseFloat\<close> on an unsigned decimal literal is its value,
  and \<open>NaN\<close> on \<open>undefined\<close> and on a string that starts with no digit. The two
  functions below compute the built-ins on strings of these shapes, and are what the
  parameters \<open>parseDate\<close> and \<open>parseFloat\<close> are set to in the examples.
\<close>

definition is_digit :: "char \<Rightarrow> bool" where
  "is_digit c = (CHR ''0'' \<le> c \<and> c \<le> CHR ''9'')"

definition digits_value :: "string \<Rightarrow> int" where
  "digits_value s = fold (\<lambda>c n. 10 * n + (of_char c - 48)) s 0"

definition days_from_civil :: "int \<Rightarrow> int \<Rightarrow> int \<Rightarrow> int" where
  \<comment> \<open>Days from 1970-01-01 to the day \<open>dd\<close> of month \<open>mm\<close> of year \<open>yy\<close>, Gregorian calendar.\<close>
  "days_from_civil yy mm dd =
     (let yy' = (if mm \<le> 2 then yy - 1 else yy);
          era = yy' div 400;
          yoe = yy' - era * 400;
          doy = (153 * (if mm > 2 then mm - 3 else mm + 9) + 2) div 5 + dd - 1;
          doe = yoe * 365 + yoe div 4 - yoe div 100 + doy
      in era * 146097 + doe - 719468)"

definition days_in_month :: "int \<Rightarrow> int \<Rightarrow> int" where
  "days_in_month yy mm =
     (if mm = 2 then (if yy mod 4 = 0 \<and> (yy mod 100 \<noteq> 0 \<or> yy mod 400 = 0) then 29 else 28)
      else if mm = 4 \<or> mm = 6 \<or> mm = 9 \<or> mm = 11 then 30 else 31)"

definition isoDate :: "string \<Rightarrow> date" where
  "isoDate s =
     (let yy = digits_value (take 4 s);
          mm = digits_value (take 2 (drop 5 s));
          dd = digits_value (take 2 (drop 8 s))
      in if length s = 10 \<and> list_all is_digit (take 4 s @ take 2 (drop 5 s) @ drop 8 s) \<and>
            s ! 4 = CHR ''-'' \<and> s ! 7 = CHR ''-'' \<and>
            1 \<le> mm \<and> mm \<le> 12 \<and> 1 \<le> dd \<and> dd \<le> days_in_month yy mm
         then Date (days_from_civil yy mm dd * 86400000)
         else Invalid_Date)"

definition decimalFloat :: "string option \<Rightarrow> jsnum" where
  "decimalFloat v =
     (case v of
        None \<Rightarrow> NaN
      | Some s \<Rightarrow>
          let ip = takeWhile is_digit s;
              rest = dropWhile is_digit s;
              fp = (case rest of [] \<Rightarrow> [] | c # r \<Rightarrow> if c = CHR ''.'' then takeWhile is_digit r else [])
          in if ip = [] \<and> fp = [] then NaN
             else Num (of_int (digits_value ip) + of_int (digits_value fp) / 10 ^ length fp))"

subsection \<open>Notions used to state the properties\<close>

definition all_projects :: "dataset \<Rightarrow> project list" where
  \<comment> \<open>The projects in the order in which the layout pass processes them.\<close>
  "all_projects d = dataset.projectLines d @ concat (map epic.projectLines (dataset.epics d))"

definition date_range_invalid :: "(string \<Rightarrow> date) \<Rightarrow> project \<Rightarrow> bool" where
  \<comment> \<open>The first check of \<open>processProject\<close>: \<open>projEnd < projStart\<close>.\<close>
  "date_range_invalid parseDate p =
     js_less (valueOf (parseDate (project.tend p))) (valueOf (parseDate (project.tbeg p)))"

definition tail_end_invalid :: "(string \<Rightarrow> date) \<Rightarrow> project \<Rightarrow> bool" where
  \<comment> \<open>The second check: \<open>projTailEnd && projTailEnd <= projEnd\<close>.\<close>
  "tail_end_invalid parseDate p =
     (case project.tailEnd p of
        None \<Rightarrow> False
      | Some s \<Rightarrow>
          s \<noteq> [] \<and> js_le (valueOf (parseDate s)) (valueOf (parseDate (project.tend p))))"

definition invalid_dates :: "(string \<Rightarrow> date) \<Rightarrow> project \<Rightarrow> bool" where
  "invalid_dates parseDate p = (date_range_invalid parseDate p \<or> tail_end_invalid parseDate p)"

definition validation_message :: "(string \<Rightarrow> date) \<Rightarrow> project \<Rightarrow> string" where
  "validation_message parseDate p =
     (if date_range_invalid parseDate p then rangeMessage p
      else tailMessage p (case project.tailEnd p of None \<Rightarrow> [] | Some s \<Rightarrow> s))"

definition message_identifies :: "(string \<Rightarrow> date) \<Rightarrow> project \<Rightarrow> string \<Rightarrow> bool" where
  \<comment> \<open>The message holds the project's name and the two date strings that are at fault.\<close>
  "message_identifies parseDate p msg =
     (sublist (project.name p) msg \<and> sublist (project.tend p) msg \<and>
      (if date_range_invalid parseDate p then sublist (project.tbeg p) msg
       else (case project.tailEnd p of None \<Rightarrow> False | Some s \<Rightarrow> sublist s msg)))"

definition date_x :: "date \<Rightarrow> jsnum \<Rightarrow> int \<Rightarrow> date \<Rightarrow> jsnum" where
  \<comment> \<open>\<open>this.margin.left + ((date - startDate) / totalDuration) * timelineWidth\<close>\<close>
  "date_x start totalDuration timelineWidth t =
     js_add (of_int margin_left)
       (js_mul (js_div (js_sub (valueOf t) (valueOf start)) totalDuration) (of_int timelineWidth))"

definition window_duration :: "(string \<Rightarrow> date) \<Rightarrow> dataset \<Rightarrow> jsnum" where
  \<comment> \<open>\<open>endDate - startDate\<close> of the dataset.\<close>
  "window_duration parseDate d =
     js_sub (valueOf (parseDate (dataset.tend d))) (valueOf (parseDate (dataset.tbeg d)))"

definition all_themes :: "dataset \<Rightarrow> string option list" where
  \<comment> \<open>The theme of every project, standalone or member of an epic, and of every epic.\<close>
  "all_themes d = map project.theme (all_projects d) @ map epic.theme (dataset.epics d)"

definition plain_theme :: "string option \<Rightarrow> bool" where
  \<comment> \<open>The name under which a theme is grouped is not one of an inherited property.\<close>
  "plain_theme t = (theme_or_default t \<notin> set inherited_properties)"

definition theme_names :: "dataset \<Rightarrow> string option list" where
  \<comment> \<open>The theme of every standalone project and of every epic.\<close>
  "theme_names d = map project.theme (dataset.projectLines d) @ map epic.theme (dataset.epics d)"

definition theme_project_count :: "dataset \<Rightarrow> string \<Rightarrow> nat" where
  \<comment> \<open>The standalone projects of a theme and the members of the epics of that theme.\<close>
  "theme_project_count d t =
     length (filter (\<lambda>p. project.theme p = Some t) (dataset.projectLines d)) +
     sum_list (map (\<lambda>e. length (epic.projectLines e))
                 (filter (\<lambda>e. epic.theme e = Some t) (dataset.epics d)))"

subsection \<open>Example datasets\<close>

definition mk_project ::
  "string \<Rightarrow> string option \<Rightarrow> string \<Rightarrow> string \<Rightarrow> string option \<Rightarrow> project" where
  "mk_project n t b e tle =
     \<lparr> project.name = n, theme = t, tbeg = b, tend = e, tailEnd = tle, color = None,
       pencilPressure = None, pencilThickness = None \<rparr>"

definition mk_dataset :: "string \<Rightarrow> string \<Rightarrow> project list \<Rightarrow> epic list \<Rightarrow> dataset" where
  "mk_dataset b e ps es =
     \<lparr> dataset.tbeg = b, tend = e, pencilPressure = None, pencilResolution = None,
       projectLines = ps, epics = es \<rparr>"

definition untagged_dataset :: dataset where
  \<comment> \<open>A project without a theme, one with the empty theme, one of the theme X.\<close>
  "untagged_dataset =
     mk_dataset ''2024-01-01'' ''2025-01-01''
       [mk_project ''A'' None ''2024-02-01'' ''2024-03-01'' None,
        mk_project ''B'' (Some []) ''2024-03-01'' ''2024-04-01'' None,
        mk_project ''C'' (Some ''X'') ''2024-04-01'' ''2024-05-01'' None] []"

definition five_member_epic :: epic where
  "five_member_epic =
     \<lparr> epic.name = ''E'', theme = Some ''X'', pencilPressure = Some ''0.3'',
       projectLines =
         [mk_project ''M1'' None ''2024-02-01'' ''2024-03-01'' None,
          mk_project ''M2'' None ''2024-03-01'' ''2024-04-01'' None,
          mk_project ''M3'' None ''2024-04-01'' ''2024-05-01'' None,
          mk_project ''M4'' None ''2024-05-01'' ''2024-06-01'' None,
          mk_project ''M5'' None ''2024-06-01'' ''2024-07-01'' None] \<rparr>"

definition epic_dataset :: dataset where
  \<comment> \<open>One epic of the theme X with five members, no standalone project.\<close>
  "epic_dataset = mk_dataset ''2024-01-01'' ''2025-01-01'' [] [five_member_epic]"

definition mixed_dataset :: dataset where
  \<comment> \<open>One standalone project of the theme X and one epic of that theme with two members.\<close>
  "mixed_dataset =
     mk_dataset ''2024-01-01'' ''2025-01-01''
       [mk_project ''S'' (Some ''X'') ''2024-02-01'' ''2024-03-01'' None]
       [\<lparr> epic.name = ''E'', theme = Some ''X'', pencilPressure = Some ''0.3'',
          projectLines =
            [mk_project ''M1'' None ''2024-03-01'' ''2024-04-01'' None,
             mk_project ''M2'' None ''2024-04-01'' ''2024-05-01'' None] \<rparr>]"

definition scenario_dataset :: dataset where
  \<comment> \<open>The window 2024-01-01..2025-01-01 with the single project A of the theme X.\<close>
  "scenario_dataset =
     mk_dataset ''2024-01-01'' ''2025-01-01''
       [mk_project ''A'' (Some ''X'') ''2024-02-01'' ''2024-03-01'' None] []"

definition constructor_dataset :: dataset where
  \<comment> \<open>The dataset of the scenario, its project of the theme \<open>constructor\<close>.\<close>
  "constructor_dataset =
     mk_dataset ''2024-01-01'' ''2025-01-01''
       [mk_project ''A'' (Some ''constructor'') ''2024-02-01'' ''2024-03-01'' None] []"

definition unparsable_end_project :: project where
  \<comment> \<open>A project whose \<open>tend\<close> is no date.\<close>
  "unparsable_end_project = mk_project ''U'' (Some ''X'') ''2024-02-01'' ''soon'' None"

definition reversed_window_dataset :: dataset where
  \<comment> \<open>The window ends a year before it starts.\<close>
  "reversed_window_dataset =
     mk_dataset ''2025-01-01'' ''2024-01-01''
       [mk_project ''A'' (Some ''X'') ''2024-02-01'' ''2024-03-01'' None] []"

definition equal_tail_project :: project where
  "equal_tail_project =
     mk_project ''B'' (Some ''X'') ''2024-03-01'' ''2024-04-01'' (Some ''2024-04-01'')"

definition equal_tail_dataset :: dataset where
  \<comment> \<open>The second project has its \<open>tailEnd\<close> on its \<open>tend\<close>.\<close>
  "equal_tail_dataset =
     mk_dataset ''2024-01-01'' ''2025-01-01''
       [mk_project ''A'' (Some ''X'') ''2024-02-01'' ''2024-03-01'' None, equal_tail_project] []"

definition short_tail_project :: project where
  \<comment> \<open>A tail of one day, for a window of ten years.\<close>
  "short_tail_project =
     mk_project ''T'' (Some ''X'') ''2024-02-01'' ''2024-03-01'' (Some ''2024-03-02'')"

definition zero_tail_project :: project where
  \<comment> \<open>A project whose tail ends two days before the window 2024-01-01..2024-01-18 starts.\<close>
  "zero_tail_project =
     mk_project ''Z'' (Some ''X'') ''2023-12-28'' ''2023-12-29'' (Some ''2023-12-30'')"

definition nan_tail_project :: project where
  \<comment> \<open>A project whose tail ends where the empty window 2024-01-01..2024-01-01 starts.\<close>
  "nan_tail_project =
     mk_project ''N'' (Some ''X'') ''2023-12-30'' ''2023-12-31'' (Some ''2024-01-01'')"

definition swapped_dataset :: dataset where
  \<comment> \<open>Two standalone projects, of the themes B and A.\<close>
  "swapped_dataset =
     mk_dataset ''2024-01-01'' ''2025-01-01''
       [mk_project ''P'' (Some ''B'') ''2024-02-01'' ''2024-03-01'' None,
        mk_project ''Q'' (Some ''A'') ''2024-03-01'' ''2024-04-01'' None] []"

definition swapped_dataset' :: dataset where
  \<comment> \<open>The same two projects in the other order.\<close>
  "swapped_dataset' =
     mk_dataset ''2024-01-01'' ''2025-01-01''
       [mk_project ''Q'' (Some ''A'') ''2024-03-01'' ''2024-04-01'' None,
        mk_project ''P'' (Some ''B'') ''2024-02-01'' ''2024-03-01'' None] []"

definition zero_pressure_project :: project where
  "zero_pressure_project =
     (mk_project ''A'' (Some ''X'') ''2024-02-01'' ''2024-03-01'' None)
       \<lparr> project.pencilPressure := Some 0 \<rparr>"

definition zero_pressure_epic :: epic where
  "zero_pressure_epic =
     \<lparr> epic.name = ''E'', theme = Some ''X'', pencilPressure = Some ''0'',
       projectLines = [mk_project ''M'' None ''2024-03-01'' ''2024-04-01'' None] \<rparr>"

definition zero_pressure_dataset :: dataset where
  \<comment> \<open>The pressure of the dataset, of its project and of its epic are all 0.\<close>
  "zero_pressure_dataset =
     (mk_dataset ''2024-01-01'' ''2025-01-01'' [zero_pressure_project] [zero_pressure_epic])
       \<lparr> dataset.pencilPressure := Some 0 \<rparr>"

section \<open>Properties\<close>

subsection \<open>Auxiliary facts\<close>

lemma processProject_invalid:
  "invalid_dates pd p \<Longrightarrow> processProject pd p s t w i = Inl (Error (validation_message pd p))"
  by (auto simp: processProject_def invalid_dates_def date_range_invalid_def tail_end_invalid_def
        validation_message_def Let_def split: option.splits)

lemma processProject_valid:
  "\<not> invalid_dates pd p \<Longrightarrow> \<exists>pp. processProject pd p s t w i = Inr pp"
  by (auto simp: processProject_def invalid_dates_def date_range_invalid_def tail_end_invalid_def
        Let_def split: option.splits)

lemma processProject_fields:
  assumes "processProject pd p s t w i = Inr pp"
  shows "\<not> invalid_dates pd p"
    and "positioned_project.x1 pp = Math_round (date_x s t w (pd (project.tbeg p)))"
    and "positioned_project.x2 pp = Math_round (date_x s t w (pd (project.tend p)))"
    and "positioned_project.x3 pp =
           (case project.tailEnd p of
              None \<Rightarrow> None
            | Some tle \<Rightarrow>
                if tle \<noteq> [] \<and> truthy (date_x s t w (pd tle))
                then Some (Math_round (date_x s t w (pd tle))) else None)"
    and "project.theme pp = project.theme p"
  using assms
  by (auto simp: processProject_def invalid_dates_def date_range_invalid_def tail_end_invalid_def
        Let_def date_x_def project.defs positioned_project.defs split: option.splits if_splits)

lemma find_append:
  "List.find P (xs @ ys) = (case List.find P xs of Some x \<Rightarrow> Some x | None \<Rightarrow> List.find P ys)"
  by (induction xs) auto

text \<open>A loop that throws stops at the first element that makes its body throw.\<close>

lemma mapE_find:
  assumes "\<forall>x\<in>set xs. if bad x then f x = Inl (err x) else (\<exists>v. f x = Inr v)"
  shows "case List.find bad xs of
           Some q \<Rightarrow> mapE f xs = Inl (err q)
         | None \<Rightarrow> (\<exists>vs. mapE f xs = Inr vs)"
  using assms
proof (induction xs)
  case Nil
  then show ?case by simp
next
  case (Cons a xs)
  show ?case
  proof (cases "bad a")
    case True
    with Cons.prems show ?thesis by simp
  next
    case False
    with Cons.prems obtain v where v: "f a = Inr v" by auto
    from Cons have IH: "case List.find bad xs of
           Some q \<Rightarrow> mapE f xs = Inl (err q)
         | None \<Rightarrow> (\<exists>vs. mapE f xs = Inr vs)" by simp
    show ?thesis using False v IH by (auto split: option.splits)
  qed
qed

lemma processEpics_find:
  "case List.find (invalid_dates pd) (concat (map epic.projectLines es)) of
     Some q \<Rightarrow> processEpics pd pf d s t w i es st = Inl (Error (validation_message pd q))
   | None \<Rightarrow> (\<exists>r. processEpics pd pf d s t w i es st = Inr r)"
proof (induction es arbitrary: i st)
  case Nil
  then show ?case by simp
next
  case (Cons e es)
  let ?f = "\<lambda>project. map_sum id (inherit_theme e) (processProject pd project s t w (Some i))"
  have members: "\<forall>x\<in>set (epic.projectLines e).
      if invalid_dates pd x then ?f x = Inl (Error (validation_message pd x))
      else (\<exists>v. ?f x = Inr v)"
  proof
    fix x assume "x \<in> set (epic.projectLines e)"
    show "if invalid_dates pd x then ?f x = Inl (Error (validation_message pd x))
      else (\<exists>v. ?f x = Inr v)"
    proof (cases "invalid_dates pd x")
      case True
      then show ?thesis by (simp add: processProject_invalid)
    next
      case False
      from processProject_valid [OF this, of s t w "Some i"] show ?thesis
        using False by auto
    qed
  qed
  note m = mapE_find [OF members]
  show ?case
  proof (cases "List.find (invalid_dates pd) (epic.projectLines e)")
    case (Some q)
    with m have "mapE ?f (epic.projectLines e) = Inl (Error (validation_message pd q))" by simp
    with Some show ?thesis by (simp add: find_append)
  next
    case None
    with m obtain vs where vs: "mapE ?f (epic.projectLines e) = Inr vs" by auto
    obtain a b where st: "st = (a, b)" by (cases st)
    have "\<exists>st'. processEpics pd pf d s t w i (e # es) st =
                processEpics pd pf d s t w (Suc i) es st'"
      by (auto simp: vs st Let_def intro: exI)
    then obtain st' where step: "processEpics pd pf d s t w i (e # es) st =
                processEpics pd pf d s t w (Suc i) es st'" ..
    show ?thesis
      unfolding step using None Cons.IH [of "Suc i" st'] by (simp add: find_append)
  qed
qed

text \<open>
  The layout pass fails with the message of the first project, in processing order, that
  fails its validation; when there is none, its result is that of
  \<open>resolveCollisionsWithThemes\<close> on the processed projects and epics.
\<close>

lemma layout_find:
  "case List.find (invalid_dates pd) (all_projects d) of
     Some q \<Rightarrow> calculateTimelinePositions pd pf (Some d) = Inl (Error (validation_message pd q))
   | None \<Rightarrow>
       (\<exists>vs aps eps.
          mapE (\<lambda>project. processProject pd project (pd (dataset.tbeg d)) (window_duration pd d)
                  (displayWidth - margin_left - margin_right) None)
            (dataset.projectLines d) = Inr vs \<and>
          processEpics pd pf d (pd (dataset.tbeg d)) (window_duration pd d)
            (displayWidth - margin_left - margin_right) 0 (dataset.epics d) (vs, []) =
            Inr (aps, eps) \<and>
          calculateTimelinePositions pd pf (Some d) =
            resolveCollisionsWithThemes aps eps (getUniqueThemes (Some d)))"
proof -
  let ?s = "pd (dataset.tbeg d)"
  let ?t = "window_duration pd d"
  let ?w = "displayWidth - margin_left - margin_right"
  let ?f = "\<lambda>project. processProject pd project ?s ?t ?w None"
  have standalone: "\<forall>x\<in>set (dataset.projectLines d).
      if invalid_dates pd x then ?f x = Inl (Error (validation_message pd x))
      else (\<exists>v. ?f x = Inr v)"
    using processProject_valid by (auto simp: processProject_invalid)
  note m = mapE_find [OF standalone]
  show ?thesis
  proof (cases "List.find (invalid_dates pd) (dataset.projectLines d)")
    case (Some q)
    with m have "mapE ?f (dataset.projectLines d) = Inl (Error (validation_message pd q))"
      by simp
    with Some show ?thesis
      by (simp add: all_projects_def find_append calculateTimelinePositions_def Let_def
            window_duration_def)
  next
    case None
    with m obtain vs where vs: "mapE ?f (dataset.projectLines d) = Inr vs" by auto
    note e = processEpics_find [where pd = pd and es = "dataset.epics d" and pf = pf and d = d
                 and s = ?s and t = ?t and w = ?w and i = 0 and st = "(vs, [])"]
    show ?thesis
    proof (cases "List.find (invalid_dates pd) (concat (map epic.projectLines (dataset.epics d)))")
      case (Some q)
      with e None vs show ?thesis
        by (simp add: all_projects_def find_append calculateTimelinePositions_def Let_def
              window_duration_def)
    next
      case None2: None
      with e obtain r where r: "processEpics pd pf d ?s ?t ?w 0 (dataset.epics d) (vs, []) = Inr r"
        by auto
      obtain aps eps where ae: "r = (aps, eps)" by (cases r)
      have "calculateTimelinePositions pd pf (Some d) =
              resolveCollisionsWithThemes aps eps (getUniqueThemes (Some d))"
        using vs r ae
        by (simp add: calculateTimelinePositions_def Let_def window_duration_def)
      with None None2 vs r ae show ?thesis
        by (simp add: all_projects_def find_append)
    qed
  qed
qed

lemma sublist_name_rangeMessage: "sublist (project.name p) (rangeMessage p)"
  unfolding rangeMessage_def by (rule sublist_appendI)

lemma sublist_tend_rangeMessage: "sublist (project.tend p) (rangeMessage p)"
proof -
  have "rangeMessage p =
      (''Invalid date range for project \"'' @ project.name p @ ''\": end date ('') @
      project.tend p @ ('') is before start date ('' @ project.tbeg p @ '')'')"
    by (simp add: rangeMessage_def)
  then show ?thesis by (simp only: sublist_appendI)
qed

lemma sublist_tbeg_rangeMessage: "sublist (project.tbeg p) (rangeMessage p)"
proof -
  have "rangeMessage p =
      (''Invalid date range for project \"'' @ project.name p @ ''\": end date ('' @
      project.tend p @ '') is before start date ('') @ project.tbeg p @ '')''"
    by (simp add: rangeMessage_def)
  then show ?thesis by (simp only: sublist_appendI)
qed

lemma sublist_name_tailMessage: "sublist (project.name p) (tailMessage p s)"
  unfolding tailMessage_def by (rule sublist_appendI)

lemma sublist_tail_tailMessage: "sublist s (tailMessage p s)"
proof -
  have "tailMessage p s =
      (''Invalid tailEnd for project \"'' @ project.name p @ ''\": tailEnd ('') @
      s @ ('') must be after tend ('' @ project.tend p @ '')'')"
    by (simp add: tailMessage_def)
  then show ?thesis by (simp only: sublist_appendI)
qed

lemma sublist_tend_tailMessage: "sublist (project.tend p) (tailMessage p s)"
proof -
  have "tailMessage p s =
      (''Invalid tailEnd for project \"'' @ project.name p @ ''\": tailEnd ('' @
      s @ '') must be after tend ('') @ project.tend p @ '')''"
    by (simp add: tailMessage_def)
  then show ?thesis by (simp only: sublist_appendI)
qed

lemma validation_message_identifies:
  assumes "invalid_dates pd p"
  shows "message_identifies pd p (validation_message pd p)"
proof (cases "date_range_invalid pd p")
  case True
  then show ?thesis
    by (simp add: message_identifies_def validation_message_def sublist_name_rangeMessage
          sublist_tend_rangeMessage sublist_tbeg_rangeMessage)
next
  case False
  with assms obtain s where "project.tailEnd p = Some s"
    by (auto simp: invalid_dates_def tail_end_invalid_def split: option.splits)
  with False show ?thesis
    by (simp add: message_identifies_def validation_message_def sublist_name_tailMessage
          sublist_tail_tailMessage sublist_tend_tailMessage)
qed

lemma date_x_Date:
  "dur \<noteq> 0 \<Longrightarrow> date_x (Date s) (Num dur) w (Date t) =
     Num (of_int margin_left + (of_int t - of_int s) / dur * of_int w)"
  by (simp add: date_x_def)

text \<open>
  In a window of positive duration, of two dates that parse the later one is never drawn
  to the left.
\<close>

lemma date_x_mono:
  assumes "0 < dur" "0 \<le> w" "a \<le> b"
  shows "js_le (Math_round (date_x (Date s) (Num dur) w (Date a)))
           (Math_round (date_x (Date s) (Num dur) w (Date b)))"
proof -
  have "((of_int a :: rat) - of_int s) / dur \<le> (of_int b - of_int s) / dur"
    using assms by (simp add: divide_right_mono)
  then have "((of_int a :: rat) - of_int s) / dur * of_int w \<le> (of_int b - of_int s) / dur * of_int w"
    by (rule mult_right_mono) (use assms in simp)
  then have "round (of_int margin_left + ((of_int a :: rat) - of_int s) / dur * of_int w)
      \<le> round (of_int margin_left + ((of_int b :: rat) - of_int s) / dur * of_int w)"
    by (intro round_mono) simp
  then show ?thesis using assms by (simp add: date_x_Date)
qed

lemma valueOf_less_Date:
  assumes "js_less (valueOf a) (valueOf b)"
  obtains s t where "a = Date s" "b = Date t" "s < t"
  using assms by (cases a; cases b) auto

lemma set_add_theme:
  "set (add_theme t acc) = set acc \<union> {s. t = Some s \<and> s \<noteq> []}"
  by (auto simp: add_theme_def set_add_def split: option.splits)

lemma distinct_add_theme: "distinct acc \<Longrightarrow> distinct (add_theme t acc)"
  by (auto simp: add_theme_def set_add_def split: option.splits)

lemma set_fold_add_theme:
  "set (fold (\<lambda>x. add_theme (g x)) xs acc) = set acc \<union> {s. Some s \<in> g ` set xs \<and> s \<noteq> []}"
  by (induction xs arbitrary: acc) (auto simp: set_add_theme)

lemma distinct_fold_add_theme:
  "distinct acc \<Longrightarrow> distinct (fold (\<lambda>x. add_theme (g x)) xs acc)"
  by (induction xs arbitrary: acc) (auto simp: distinct_add_theme)

text \<open>The collected themes are the non-empty theme strings of the dataset, and nothing else.\<close>

lemma set_getUniqueThemes:
  "set (getUniqueThemes (Some d)) = {s. Some s \<in> set (theme_names d) \<and> s \<noteq> []}"
  by (auto simp: getUniqueThemes_def theme_names_def set_fold_add_theme)

lemma distinct_getUniqueThemes: "distinct (getUniqueThemes data)"
  by (cases data) (simp_all add: getUniqueThemes_def distinct_fold_add_theme)

lemma sorted_getUniqueThemes: "sorted (getUniqueThemes data)"
  by (simp add: getUniqueThemes_def Let_def)

lemma Default_only_when_named:
  "''Default'' \<in> set (getUniqueThemes (Some d)) \<longleftrightarrow> Some ''Default'' \<in> set (theme_names d)"
  by (simp add: set_getUniqueThemes)

lemma layout_group_names:
  "map theme_block.name (fst (snd (snd (layout_group t g st)))) =
     map theme_block.name (fst (snd (snd st))) @ [t]"
  by (cases st) (simp add: layout_group_def Let_def split: prod.splits)

lemma layout_theme_names:
  "layout_theme g t st = Inr st' \<Longrightarrow>
   map theme_block.name (fst (snd (snd st'))) = map theme_block.name (fst (snd (snd st))) @ [t]"
  by (auto simp: layout_theme_def layout_group_names split: property.splits)

lemma foldE_layout_theme_names:
  "foldE (layout_theme g) ts st = Inr st' \<Longrightarrow>
   map theme_block.name (fst (snd (snd st'))) = map theme_block.name (fst (snd (snd st))) @ ts"
proof (induction ts arbitrary: st)
  case Nil
  then show ?case by simp
next
  case (Cons t ts)
  then obtain st1 where a: "layout_theme g t st = Inr st1" and b: "foldE (layout_theme g) ts st1 = Inr st'"
    by (auto split: sum.splits)
  from Cons.IH [OF b] layout_theme_names [OF a] show ?case by simp
qed

lemma resolve_block_names:
  assumes "resolveCollisionsWithThemes ps es ts = Inr sc"
  shows "map theme_block.name (scene.themes sc) = ts"
proof -
  from assms obtain g st' where f: "foldE (layout_theme g) ts (ps, es, [], margin_top) = Inr st'"
    and sc: "scene.themes sc = fst (snd (snd st'))"
    by (auto simp: resolveCollisionsWithThemes_def Let_def split: sum.splits prod.splits)
  from foldE_layout_theme_names [OF f] sc show ?thesis by simp
qed

text \<open>The blocks of a scene are the themes that \<open>getUniqueThemes\<close> returns, in that order.\<close>

lemma layout_block_names:
  assumes "calculateTimelinePositions pd pf (Some d) = Inr sc"
  shows "map theme_block.name (scene.themes sc) = getUniqueThemes (Some d)"
  using assms
  by (auto simp: calculateTimelinePositions_def Let_def resolve_block_names
        split: sum.splits prod.splits)

text \<open>
  Hence a scene has a block \<open>Default\<close> only when a project or an epic of the dataset names
  the theme \<open>Default\<close> itself.
\<close>

lemma Default_block_only_when_named:
  assumes "calculateTimelinePositions pd pf (Some d) = Inr sc"
  shows "''Default'' \<in> theme_block.name ` set (scene.themes sc) \<longleftrightarrow>
         Some ''Default'' \<in> set (theme_names d)"
proof -
  have "theme_block.name ` set (scene.themes sc) = set (map theme_block.name (scene.themes sc))"
    by simp
  also have "\<dots> = set (getUniqueThemes (Some d))"
    by (simp only: layout_block_names [OF assms])
  finally show ?thesis by (simp add: Default_only_when_named)
qed

text \<open>
  The only throw of \<open>resolveCollisionsWithThemes\<close> is the \<open>TypeError\<close> for a theme that
  names an inherited property; with no such theme it returns a scene.
\<close>

lemma foldE_total:
  assumes "\<forall>x\<in>set xs. \<forall>s. \<exists>s'. f x s = Inr s'"
  shows "\<exists>s'. foldE f xs s = Inr s'"
  using assms
proof (induction xs arbitrary: s)
  case Nil
  then show ?case by simp
next
  case (Cons x xs)
  from Cons.prems have "\<exists>s1. f x s = Inr s1" by (metis list.set_intros(1))
  then obtain s1 where s1: "f x s = Inr s1" ..
  from Cons.prems have "\<forall>x\<in>set xs. \<forall>s. \<exists>s'. f x s = Inr s'" by simp
  from Cons.IH [OF this, of s1] s1 show ?case by simp
qed

lemma foldE_error:
  assumes "\<forall>x s e. f x s = Inl e \<longrightarrow> e = TypeError" and "foldE f xs s = Inl e"
  shows "e = TypeError"
  using assms(2)
proof (induction xs arbitrary: s)
  case Nil
  then show ?case by simp
next
  case (Cons x xs)
  then show ?case using assms(1) by (cases "f x s") auto
qed

lemma group_project_plain:
  "plain_theme (project.theme (snd rp)) \<Longrightarrow> \<exists>g'. group_project rp g = Inr g'"
  by (auto simp: group_project_def create_group_def get_property_def plain_theme_def Let_def
        split: option.splits)

lemma group_epic_plain:
  "plain_theme (positioned_epic.theme (snd re)) \<Longrightarrow> \<exists>g'. group_epic re g = Inr g'"
  by (auto simp: group_epic_def create_group_def get_property_def plain_theme_def Let_def
        split: option.splits)

lemma layout_theme_plain:
  "t \<notin> set inherited_properties \<Longrightarrow> \<exists>st'. layout_theme g t st = Inr st'"
  by (simp add: layout_theme_def get_property_def del: split_paired_Ex split: option.splits)

lemma group_project_error: "group_project rp g = Inl e \<Longrightarrow> e = TypeError"
  by (auto simp: group_project_def Let_def split: property.splits)

lemma group_epic_error: "group_epic re g = Inl e \<Longrightarrow> e = TypeError"
  by (auto simp: group_epic_def Let_def split: property.splits)

lemma layout_theme_error: "layout_theme g t st = Inl e \<Longrightarrow> e = TypeError"
  by (auto simp: layout_theme_def split: property.splits)

lemma resolve_error:
  assumes "resolveCollisionsWithThemes ps es ts = Inl e"
  shows "e = TypeError"
proof (cases "foldE group_project (enumerate 0 ps) Map.empty")
  case (Inl e1)
  with assms have "e = e1" by (simp add: resolveCollisionsWithThemes_def)
  moreover have "\<forall>x s e. group_project x s = Inl e \<longrightarrow> e = TypeError"
    using group_project_error by blast
  ultimately show ?thesis using Inl foldE_error [of group_project] by blast
next
  case (Inr g1)
  show ?thesis
  proof (cases "foldE group_epic (enumerate 0 es) g1")
    case (Inl e2)
    with assms Inr have "e = e2" by (simp add: resolveCollisionsWithThemes_def)
    moreover have "\<forall>x s e. group_epic x s = Inl e \<longrightarrow> e = TypeError"
      using group_epic_error by blast
    ultimately show ?thesis using Inl foldE_error [of group_epic] by blast
  next
    case g2: (Inr g2)
    show ?thesis
    proof (cases "foldE (layout_theme g2) ts (ps, es, [], margin_top)")
      case (Inl e3)
      with assms Inr g2 have "e = e3" by (simp add: resolveCollisionsWithThemes_def)
      moreover have "\<forall>x s e. layout_theme g2 x s = Inl e \<longrightarrow> e = TypeError"
        using layout_theme_error by blast
      ultimately show ?thesis using Inl foldE_error [of "layout_theme g2"] by blast
    next
      case r: (Inr r)
      with assms Inr g2 show ?thesis
        by (simp add: resolveCollisionsWithThemes_def Let_def split: prod.splits)
    qed
  qed
qed

lemma resolve_plain:
  assumes "\<forall>p\<in>set ps. plain_theme (project.theme p)"
      and "\<forall>e\<in>set es. plain_theme (positioned_epic.theme e)"
      and "\<forall>t\<in>set ts. t \<notin> set inherited_properties"
  shows "\<exists>sc. resolveCollisionsWithThemes ps es ts = Inr sc"
proof -
  have "\<forall>rp\<in>set (enumerate 0 ps). \<forall>g. \<exists>g'. group_project rp g = Inr g'"
    using assms(1) by (auto simp: in_set_enumerate_eq intro!: group_project_plain)
  from foldE_total [OF this]
  obtain g1 where g1: "foldE group_project (enumerate 0 ps) Map.empty = Inr g1" by blast
  have "\<forall>re\<in>set (enumerate 0 es). \<forall>g. \<exists>g'. group_epic re g = Inr g'"
    using assms(2) by (auto simp: in_set_enumerate_eq intro!: group_epic_plain)
  from foldE_total [OF this]
  obtain g2 where g2: "foldE group_epic (enumerate 0 es) g1 = Inr g2" by blast
  have "\<forall>t\<in>set ts. \<forall>st. \<exists>st'. layout_theme g2 t st = Inr st'"
    using assms(3) by (blast intro: layout_theme_plain)
  from foldE_total [OF this]
  obtain st' where st': "foldE (layout_theme g2) ts (ps, es, [], margin_top) = Inr st'" by blast
  show ?thesis
    using g1 g2 st' by (cases st') (simp add: resolveCollisionsWithThemes_def Let_def)
qed

lemma mapE_Inr_rel:
  "mapE f xs = Inr ys \<Longrightarrow> list_all2 (\<lambda>x y. f x = Inr y) xs ys"
  by (induction xs arbitrary: ys) (auto split: sum.splits)

lemma mapE_Inr_preserves:
  assumes "mapE f xs = Inr ys" and "\<And>x y. x \<in> set xs \<Longrightarrow> f x = Inr y \<Longrightarrow> P y"
  shows "\<forall>y\<in>set ys. P y"
proof -
  from mapE_Inr_rel [OF assms(1)] have r: "list_all2 (\<lambda>x y. f x = Inr y) xs ys" .
  show ?thesis
  proof
    fix y assume "y \<in> set ys"
    then obtain n where n: "n < length ys" "ys ! n = y" by (auto simp: in_set_conv_nth)
    with r have "f (xs ! n) = Inr y" "xs ! n \<in> set xs"
      by (auto simp: list_all2_conv_all_nth)
    then show "P y" by (auto intro: assms(2))
  qed
qed

lemma inherit_theme_plain:
  "plain_theme (project.theme pp) \<Longrightarrow> plain_theme (epic.theme e) \<Longrightarrow>
   plain_theme (project.theme (inherit_theme e pp))"
  by (simp add: inherit_theme_def)

text \<open>The processed projects and epics carry no theme that the dataset does not have.\<close>

lemma processEpics_plain:
  assumes "processEpics pd pf d s t w i es (aps, eps) = Inr (aps', eps')"
      and "\<forall>p\<in>set aps. plain_theme (project.theme p)"
      and "\<forall>e\<in>set eps. plain_theme (positioned_epic.theme e)"
      and "\<forall>e\<in>set es. plain_theme (epic.theme e) \<and>
             (\<forall>p\<in>set (epic.projectLines e). plain_theme (project.theme p))"
  shows "(\<forall>p\<in>set aps'. plain_theme (project.theme p)) \<and>
         (\<forall>e\<in>set eps'. plain_theme (positioned_epic.theme e))"
  using assms
proof (induction es arbitrary: i aps eps)
  case Nil
  then show ?case by simp
next
  case (Cons e es)
  let ?f = "\<lambda>project. map_sum id (inherit_theme e) (processProject pd project s t w (Some i))"
  from Cons.prems(1) obtain vs where vs: "mapE ?f (epic.projectLines e) = Inr vs"
    by (auto split: sum.splits)
  have pe: "plain_theme (epic.theme e)" using Cons.prems(4) by simp
  have members: "\<forall>y\<in>set vs. plain_theme (project.theme y)"
  proof (rule mapE_Inr_preserves [OF vs])
    fix x y assume x: "x \<in> set (epic.projectLines e)" and y: "?f x = Inr y"
    then obtain pp where pp: "processProject pd x s t w (Some i) = Inr pp"
      and yy: "y = inherit_theme e pp"
      by (cases "processProject pd x s t w (Some i)") auto
    from processProject_fields(5) [OF pp] x Cons.prems(4)
    have "plain_theme (project.theme pp)" by simp
    with pe yy show "plain_theme (project.theme y)" by (simp add: inherit_theme_plain)
  qed
  obtain aps1 eps1 where step: "processEpics pd pf d s t w i (e # es) (aps, eps) =
        processEpics pd pf d s t w (Suc i) es (aps1, eps1)"
    and a1: "aps1 = aps @ vs"
    and e1: "eps1 = eps \<or> (\<exists>pe. eps1 = eps @ [pe] \<and> positioned_epic.theme pe = epic.theme e)"
    by (auto simp: vs Let_def)
  have "\<forall>p\<in>set aps1. plain_theme (project.theme p)"
    using a1 Cons.prems(2) members by auto
  moreover have "\<forall>e\<in>set eps1. plain_theme (positioned_epic.theme e)"
    using e1 Cons.prems(3) pe by auto
  moreover have "processEpics pd pf d s t w (Suc i) es (aps1, eps1) = Inr (aps', eps')"
    using Cons.prems(1) step by simp
  ultimately show ?case
    using Cons.IH [of "Suc i" aps1 eps1] Cons.prems(4) by simp
qed

lemma plain_unique_themes:
  assumes "\<forall>t\<in>set (all_themes d). plain_theme t"
  shows "\<forall>t\<in>set (getUniqueThemes (Some d)). t \<notin> set inherited_properties"
proof
  fix t assume "t \<in> set (getUniqueThemes (Some d))"
  then have "Some t \<in> set (theme_names d)" "t \<noteq> []" by (auto simp: set_getUniqueThemes)
  then have "Some t \<in> set (all_themes d)"
    by (auto simp: theme_names_def all_themes_def all_projects_def)
  with assms have "plain_theme (Some t)" by blast
  with \<open>t \<noteq> []\<close> show "t \<notin> set inherited_properties"
    by (simp add: plain_theme_def theme_or_default_def)
qed

lemma layout_plain:
  assumes "\<forall>p\<in>set (all_projects d). \<not> invalid_dates pd p"
      and "\<forall>t\<in>set (all_themes d). plain_theme t"
  shows "\<exists>sc. calculateTimelinePositions pd pf (Some d) = Inr sc"
proof -
  let ?s = "pd (dataset.tbeg d)"
  let ?t = "window_duration pd d"
  let ?w = "displayWidth - margin_left - margin_right"
  let ?f = "\<lambda>project. processProject pd project ?s ?t ?w None"
  from assms(1) have "List.find (invalid_dates pd) (all_projects d) = None"
    by (simp add: find_None_iff)
  with layout_find [where pd = pd and d = d and pf = pf]
  obtain vs aps eps where vs: "mapE ?f (dataset.projectLines d) = Inr vs"
    and pe: "processEpics pd pf d ?s ?t ?w 0 (dataset.epics d) (vs, []) = Inr (aps, eps)"
    and l: "calculateTimelinePositions pd pf (Some d) =
              resolveCollisionsWithThemes aps eps (getUniqueThemes (Some d))"
    by auto
  have standalone: "\<forall>y\<in>set vs. plain_theme (project.theme y)"
  proof (rule mapE_Inr_preserves [OF vs])
    fix x y assume x: "x \<in> set (dataset.projectLines d)" and y: "?f x = Inr y"
    from x have "project.theme x \<in> set (all_themes d)"
      by (simp add: all_themes_def all_projects_def)
    with assms(2) processProject_fields(5) [OF y] show "plain_theme (project.theme y)" by simp
  qed
  have epics: "\<forall>e\<in>set (dataset.epics d). plain_theme (epic.theme e) \<and>
             (\<forall>p\<in>set (epic.projectLines e). plain_theme (project.theme p))"
    using assms(2) by (auto simp: all_themes_def all_projects_def)
  from processEpics_plain [OF pe standalone _ epics]
  have "(\<forall>p\<in>set aps. plain_theme (project.theme p)) \<and>
        (\<forall>e\<in>set eps. plain_theme (positioned_epic.theme e))"
    by simp
  with resolve_plain [of aps eps "getUniqueThemes (Some d)"] plain_unique_themes [OF assms(2)] l
  show ?thesis by simp
qed

lemma fold_no_projects_property:
  "fold (\<lambda>epic_projects totalLines.
           case epic_projects of None \<Rightarrow> totalLines | Some ps \<Rightarrow> totalLines + length ps)
     (map epic_projects_property es) n = n"
  by (induction es) (simp_all add: epic_projects_property_def)

text \<open>The dimension calculator counts the standalone projects of a theme only.\<close>

lemma contentHeight_required_standalone:
  "contentHeight_required (Some d) t =
     max 80 (int (length (filter (\<lambda>p. project.theme p = Some t) (dataset.projectLines d))) * lineHeight)"
  by (simp add: contentHeight_required_def getThemeContent_def calculateThemeContentHeight_def
        fold_no_projects_property Let_def)

lemma calculateRequiredDimensions_min: "800 \<le> dimensions.height (calculateRequiredDimensions data)"
  by (cases data) (simp_all add: calculateRequiredDimensions_def Let_def)

subsection \<open>The theme collector\<close>

text \<open>
  C1. The claim: whenever a standalone project or an epic has an absent or empty theme, the
  output of \<open>getUniqueThemes\<close> contains the name \<open>Default\<close>, and every such project is
  placed in the block \<open>Default\<close> of the scene. The code does not do this:
  \<open>resolveCollisionsWithThemes\<close> files such projects under \<open>Default\<close>, but
  \<open>getUniqueThemes\<close> skips them, and only the themes it returns get a block. On the dataset
  with the projects A (no theme), B (empty theme) and C (theme X), the themes are \<open>[X]\<close>,
  the scene has the single block X, its projects are C alone, and A and B keep the
  \<open>y = 0\<close> that \<open>processProject\<close> gave them. For every dataset, the list of themes and
  the scene have a \<open>Default\<close> only when that name is written in the dataset
  (\<open>Default_only_when_named\<close>, \<open>Default_block_only_when_named\<close>).
\<close>

theorem untagged_projects_left_out:
  "getUniqueThemes (Some untagged_dataset) = [''X''] \<and>
   (case calculateTimelinePositions isoDate decimalFloat (Some untagged_dataset) of
      Inl e \<Rightarrow> False
    | Inr sc \<Rightarrow>
        map theme_block.name (scene.themes sc) = [''X''] \<and>
        map project.name (projects_of sc (scene.projects sc)) = [''C''] \<and>
        map (\<lambda>p. (project.name p, positioned_project.y p)) (scene.store sc) =
          [(''A'', 0), (''B'', 0), (''C'', 140)])"
  by code_simp

text \<open>
  C8. For every dataset, \<open>getUniqueThemes\<close> returns a list that is sorted ascending in the
  lexicographic order of strings and has no duplicates; two datasets with the same
  multiset of project and epic themes, in any order, give the same list. (The method reads
  the dataset and writes nothing, so running it again gives the same list.)
\<close>

theorem getUniqueThemes_sorted_distinct_order_free:
  "sorted (getUniqueThemes (Some d)) \<and> distinct (getUniqueThemes (Some d)) \<and>
   (mset (theme_names d) = mset (theme_names d') \<longrightarrow>
      getUniqueThemes (Some d) = getUniqueThemes (Some d'))"
proof -
  have "getUniqueThemes (Some d) = getUniqueThemes (Some d')"
    if "mset (theme_names d) = mset (theme_names d')"
  proof -
    from that have "set (theme_names d) = set (theme_names d')" by (rule mset_eq_setD)
    then have "set (getUniqueThemes (Some d)) = set (getUniqueThemes (Some d'))"
      by (simp add: set_getUniqueThemes)
    then show ?thesis
      by (intro sorted_distinct_set_unique sorted_getUniqueThemes distinct_getUniqueThemes)
  qed
  then show ?thesis
    by (simp add: sorted_getUniqueThemes distinct_getUniqueThemes)
qed

theorem getUniqueThemes_sorted_distinct_order_free_witness:
  "mset (theme_names swapped_dataset) = mset (theme_names swapped_dataset') \<and>
   getUniqueThemes (Some swapped_dataset) = getUniqueThemes (Some swapped_dataset') \<and>
   getUniqueThemes (Some swapped_dataset) = [''A'', ''B'']"
proof -
  have a: "theme_names swapped_dataset = [Some ''B'', Some ''A'']"
    and b: "theme_names swapped_dataset' = [Some ''A'', Some ''B'']"
    by code_simp+
  have m: "mset (theme_names swapped_dataset) = mset (theme_names swapped_dataset')"
    unfolding a b by (simp add: add_mset_commute)
  have v: "getUniqueThemes (Some swapped_dataset) = [''A'', ''B'']" by code_simp
  from getUniqueThemes_sorted_distinct_order_free [of swapped_dataset swapped_dataset'] m v
  show ?thesis by simp
qed

subsection \<open>The dimension calculator\<close>

text \<open>
  C2. The claim: the content height that \<open>calculateRequiredDimensions\<close> uses for a theme is
  \<open>max(80, n * 40)\<close>, \<open>n\<close> counting the standalone projects of the theme and the members
  of its epics. \<open>calculateThemeContentHeight\<close> adds \<open>epic.projects.length\<close> for that, but
  the epics that \<open>getThemeContent\<close> hands it are those of the dataset, whose members are
  under \<open>projectLines\<close>: no member is counted. For the epic of theme X with five members,
  the claim gives 200 and the code 80.
\<close>

theorem dimension_content_height_omits_epic_members:
  "theme_project_count epic_dataset ''X'' = 5 \<and>
   max 80 (int (theme_project_count epic_dataset ''X'') * lineHeight) = 200 \<and>
   contentHeight_required (Some epic_dataset) ''X'' = 80"
  by code_simp

text \<open>
  C3. The claim: the height that \<open>calculateRequiredDimensions\<close> returns is at least 800 and
  at least the sum of the heights of the blocks of the layout pass plus the top and bottom
  margins and the bottom buffer of 200. The first half holds
  (\<open>calculateRequiredDimensions_min\<close>). The second fails: for the epic of theme X with five
  members the returned height is 800, while the layout pass gives the block X the height
  440, and 440 + 120 + 60 + 200 = 820.
\<close>

theorem required_height_below_laid_out_blocks:
  "dimensions.height (calculateRequiredDimensions (Some epic_dataset)) = 800 \<and>
   (case calculateTimelinePositions isoDate decimalFloat (Some epic_dataset) of
      Inl e \<Rightarrow> False
    | Inr sc \<Rightarrow>
        map theme_block.height (scene.themes sc) = [440] \<and>
        sum_list (map theme_block.height (scene.themes sc)) + margin_top + margin_bottom + 200
          = 820)"
  by code_simp

subsection \<open>The layout pass and its errors\<close>

text \<open>
  A theme that names an inherited property makes the pass throw: the dataset of the
  scenario with the theme \<open>constructor\<close>.
\<close>

lemma constructor_theme_throws:
  "list_all (\<lambda>p. \<not> invalid_dates isoDate p) (all_projects constructor_dataset) \<and>
   calculateTimelinePositions isoDate decimalFloat (Some constructor_dataset) = Inl TypeError"
  by code_simp

text \<open>
  C4, the claim as stated: a dataset whose window has a non-positive duration makes the
  layout pass fail with an error. It does not: no method compares \<open>tend\<close> with \<open>tbeg\<close> of
  the dataset. With the window 2025-01-01..2024-01-01 the project A is laid out, at
  \<open>x1 = 1054\<close>, \<open>x2 = 973\<close> and \<open>y = 140\<close> in the block X.
\<close>

theorem reversed_window_is_laid_out:
  "js_le (valueOf (isoDate (dataset.tend reversed_window_dataset)))
     (valueOf (isoDate (dataset.tbeg reversed_window_dataset))) \<and>
   (case calculateTimelinePositions isoDate decimalFloat (Some reversed_window_dataset) of
      Inl e \<Rightarrow> False
    | Inr sc \<Rightarrow>
        map theme_block.name (scene.themes sc) = [''X''] \<and>
        map (\<lambda>p. (positioned_project.x1 p, positioned_project.x2 p, positioned_project.y p))
          (projects_of sc (scene.projects sc)) = [(Num 1054, Num 973, 140)])"
  by code_simp

text \<open>
  C4, amended: for every dataset whose window has a non-positive duration, the layout
  pass raises no error about the window. It returns a scene whenever no project fails its
  own validation (end date before start date, or a tail end that is not after the end
  date) and no theme of a project or of an epic is the name of a property that every
  object inherits (\<open>constructor\<close>, \<open>toString\<close>, \<open>__proto__\<close>, ...). When it fails, the error
  is the validation error of a project of the dataset, or the \<open>TypeError\<close> raised for such a
  theme.
\<close>

theorem layout_ignores_window:
  assumes "js_le (valueOf (parseDate (dataset.tend d))) (valueOf (parseDate (dataset.tbeg d)))"
  shows "((\<forall>p\<in>set (all_projects d). \<not> invalid_dates parseDate p) \<and>
          (\<forall>t\<in>set (all_themes d). plain_theme t) \<longrightarrow>
            (\<exists>sc. calculateTimelinePositions parseDate parseFloat (Some d) = Inr sc)) \<and>
         (\<forall>e. calculateTimelinePositions parseDate parseFloat (Some d) = Inl e \<longrightarrow>
            (\<exists>q\<in>set (all_projects d).
                invalid_dates parseDate q \<and> e = Error (validation_message parseDate q)) \<or>
            (e = TypeError \<and> (\<exists>t\<in>set (all_themes d). \<not> plain_theme t)))"
proof -
  have ok: "\<exists>sc. calculateTimelinePositions parseDate parseFloat (Some d) = Inr sc"
    if "\<forall>p\<in>set (all_projects d). \<not> invalid_dates parseDate p"
       "\<forall>t\<in>set (all_themes d). plain_theme t"
    using that by (rule layout_plain)
  have err: "(\<exists>q\<in>set (all_projects d).
                invalid_dates parseDate q \<and> e = Error (validation_message parseDate q)) \<or>
            (e = TypeError \<and> (\<exists>t\<in>set (all_themes d). \<not> plain_theme t))"
    if e: "calculateTimelinePositions parseDate parseFloat (Some d) = Inl e" for e
  proof (cases "List.find (invalid_dates parseDate) (all_projects d)")
    case (Some q)
    then have "q \<in> set (all_projects d)" "invalid_dates parseDate q"
      by (auto simp: find_Some_iff)
    moreover from Some e layout_find [where pd = parseDate and d = d and pf = parseFloat]
    have "e = Error (validation_message parseDate q)" by simp
    ultimately show ?thesis by blast
  next
    case None
    with layout_find [where pd = parseDate and d = d and pf = parseFloat]
    obtain aps eps where "calculateTimelinePositions parseDate parseFloat (Some d) =
        resolveCollisionsWithThemes aps eps (getUniqueThemes (Some d))"
      by auto
    with e have t: "e = TypeError" by (simp add: resolve_error)
    from None have "\<forall>p\<in>set (all_projects d). \<not> invalid_dates parseDate p"
      by (simp add: find_None_iff)
    with ok e have "\<not> (\<forall>t\<in>set (all_themes d). plain_theme t)" by auto
    with t show ?thesis by blast
  qed
  from ok err show ?thesis by blast
qed

theorem layout_ignores_window_witness:
  "js_le (valueOf (isoDate (dataset.tend reversed_window_dataset)))
     (valueOf (isoDate (dataset.tbeg reversed_window_dataset))) \<and>
   list_all (\<lambda>p. \<not> invalid_dates isoDate p) (all_projects reversed_window_dataset) \<and>
   list_all plain_theme (all_themes reversed_window_dataset) \<and>
   (\<exists>sc. calculateTimelinePositions isoDate decimalFloat (Some reversed_window_dataset) = Inr sc)"
proof -
  have a: "js_le (valueOf (isoDate (dataset.tend reversed_window_dataset)))
             (valueOf (isoDate (dataset.tbeg reversed_window_dataset)))"
    by code_simp
  have b: "list_all (\<lambda>p. \<not> invalid_dates isoDate p) (all_projects reversed_window_dataset)"
    by code_simp
  have c: "list_all plain_theme (all_themes reversed_window_dataset)"
    by code_simp
  from b c have "(\<forall>p\<in>set (all_projects reversed_window_dataset). \<not> invalid_dates isoDate p) \<and>
                 (\<forall>t\<in>set (all_themes reversed_window_dataset). plain_theme t)"
    by (simp add: list_all_iff)
  with layout_ignores_window [OF a, where parseFloat = decimalFloat] a b c
  show ?thesis by blast
qed

text \<open>
  C7. For every project of the dataset whose end date is before its start date, or whose
  \<open>tailEnd\<close> is present and not after its end date (equal included), \<open>processProject\<close>
  returns an error whose message holds the project's name and the two date strings at
  fault; and the layout pass of the dataset returns an error and no scene: the error of
  the first project, in processing order, that fails the validation.
\<close>

theorem invalid_project_aborts_layout:
  assumes "p \<in> set (all_projects d)" and "invalid_dates parseDate p"
  shows "processProject parseDate p start totalDuration timelineWidth i =
           Inl (Error (validation_message parseDate p)) \<and>
         message_identifies parseDate p (validation_message parseDate p) \<and>
         (\<exists>q. List.find (invalid_dates parseDate) (all_projects d) = Some q \<and>
              invalid_dates parseDate q \<and>
              calculateTimelinePositions parseDate parseFloat (Some d) =
                Inl (Error (validation_message parseDate q)) \<and>
              message_identifies parseDate q (validation_message parseDate q))"
proof -
  from assms obtain q where q: "List.find (invalid_dates parseDate) (all_projects d) = Some q"
    by (cases "List.find (invalid_dates parseDate) (all_projects d)")
       (auto simp: find_None_iff)
  then have bad: "invalid_dates parseDate q" by (auto simp: find_Some_iff)
  from q layout_find [where pd = parseDate and d = d and pf = parseFloat]
  have "calculateTimelinePositions parseDate parseFloat (Some d) =
          Inl (Error (validation_message parseDate q))"
    by simp
  with q bad assms(2) show ?thesis
    by (simp add: processProject_invalid validation_message_identifies)
qed

theorem invalid_project_aborts_layout_witness:
  "equal_tail_project \<in> set (all_projects equal_tail_dataset) \<and>
   invalid_dates isoDate equal_tail_project \<and>
   calculateTimelinePositions isoDate decimalFloat (Some equal_tail_dataset) =
     Inl (Error ''Invalid tailEnd for project \"B\": tailEnd (2024-04-01) must be after tend (2024-04-01)'')"
proof -
  have a: "equal_tail_project \<in> set (all_projects equal_tail_dataset)" by code_simp
  have b: "invalid_dates isoDate equal_tail_project" by code_simp
  have c: "List.find (invalid_dates isoDate) (all_projects equal_tail_dataset)
             = Some equal_tail_project"
    by code_simp
  have m: "validation_message isoDate equal_tail_project =
     ''Invalid tailEnd for project \"B\": tailEnd (2024-04-01) must be after tend (2024-04-01)''"
    by code_simp
  from invalid_project_aborts_layout [OF a b, where parseFloat = decimalFloat] c m a b
  show ?thesis by auto
qed

subsection \<open>The vertical positions\<close>

text \<open>
  One project A of the theme X, from 2024-02-01 to 2024-03-01 in the window
  2024-01-01..2025-01-01: one block X, the project at \<open>marginTop + 20\<close>.
\<close>

lemma single_project_scenario:
  "(case calculateTimelinePositions isoDate decimalFloat (Some scenario_dataset) of
      Inl e \<Rightarrow> False
    | Inr sc \<Rightarrow>
        map theme_block.name (scene.themes sc) = [''X''] \<and>
        map (\<lambda>p. (project.name p, positioned_project.x1 p, positioned_project.x2 p,
                  positioned_project.y p))
          (projects_of sc (scene.projects sc)) = [(''A'', Num 206, Num 287, margin_top + 20)])"
  by code_simp

text \<open>
  C5. The claim: in a block that starts at \<open>blockTop\<close> the standalone projects are at
  \<open>blockTop + 20\<close>, \<open>blockTop + 60\<close>, ... in input order, and the members of the epics of
  the theme follow on the same cursor, 40 apart. The code places the members of an epic
  twice: \<open>resolveCollisionsWithThemes\<close> is given all the projects, members included, and
  its first loop, over what its comment calls the standalone projects, gives every one of
  them a slot; its loop over the epics then gives each member a second slot and adds it
  to the block a second time. With the standalone project S and the members M1 and M2 in
  the block X at 120, the claim puts M1 at 180 and M2 at 220; the code leaves them at
  260 and 300, each twice in the block. Without epics the positions are as claimed: the
  single project of the first theme is at \<open>marginTop + 20\<close> (\<open>single_project_scenario\<close>).
\<close>

theorem epic_members_placed_twice:
  "(case calculateTimelinePositions isoDate decimalFloat (Some mixed_dataset) of
      Inl e \<Rightarrow> False
    | Inr sc \<Rightarrow>
        map (\<lambda>b. (theme_block.name b, theme_block.y b)) (scene.themes sc) = [(''X'', 120)] \<and>
        map (\<lambda>p. (project.name p, positioned_project.y p))
          (concat (map (\<lambda>b. projects_of sc (theme_block.projects b)) (scene.themes sc))) =
          [(''S'', 140), (''M1'', 260), (''M2'', 300), (''M1'', 260), (''M2'', 300)] \<and>
        map (\<lambda>e. (positioned_epic.minY e, positioned_epic.maxY e)) (scene.epics sc) =
          [(Some 260, Some 300)])"
  by code_simp

subsection \<open>The horizontal positions\<close>

text \<open>
  C6, the claim as stated: a project that passes the validation in a window of positive
  duration has \<open>x1 \<le> x2\<close> and, when it has a tail end, \<open>x2 < x3\<close>. The second part fails
  after rounding: in the window 2020-01-01..2030-01-01 a day is 0.28 pixels, and the
  project that ends on 2024-03-01 with its tail end on 2024-03-02 has \<open>x2 = x3 = 545\<close>.
  The first part fails for a date that does not parse: every comparison with the time
  value of \<open>Invalid Date\<close> is false, so the project with the end date \<open>soon\<close> passes both
  checks, and its \<open>x2\<close> is \<open>NaN\<close>.
\<close>

theorem x_order_fails:
  "js_less (Num 0) (js_sub (valueOf (isoDate ''2030-01-01'')) (valueOf (isoDate ''2020-01-01''))) \<and>
   (case processProject isoDate short_tail_project (isoDate ''2020-01-01'')
           (js_sub (valueOf (isoDate ''2030-01-01'')) (valueOf (isoDate ''2020-01-01'')))
           (displayWidth - margin_left - margin_right) None of
      Inl e \<Rightarrow> False
    | Inr pp \<Rightarrow>
        positioned_project.x2 pp = Num 545 \<and> positioned_project.x3 pp = Some (Num 545) \<and>
        \<not> js_less (positioned_project.x2 pp) (Num 545)) \<and>
   (case processProject isoDate unparsable_end_project (isoDate ''2020-01-01'')
           (js_sub (valueOf (isoDate ''2030-01-01'')) (valueOf (isoDate ''2020-01-01'')))
           (displayWidth - margin_left - margin_right) None of
      Inl e \<Rightarrow> False
    | Inr pp \<Rightarrow>
        positioned_project.x1 pp = Num 537 \<and> positioned_project.x2 pp = NaN \<and>
        \<not> js_le (positioned_project.x1 pp) (positioned_project.x2 pp))"
  by code_simp

text \<open>
  C6, amended: a project whose start and end dates parse and that passes the validation
  in a window of positive duration has \<open>x1 \<le> x2\<close>, and whenever its \<open>x3\<close> is not null,
  \<open>x2 \<le> x3\<close>.
\<close>

theorem x_coordinates_ordered:
  assumes "js_less (valueOf window_start) (valueOf window_end)"
      and "parseDate (project.tbeg p) \<noteq> Invalid_Date"
      and "parseDate (project.tend p) \<noteq> Invalid_Date"
      and "processProject parseDate p window_start
             (js_sub (valueOf window_end) (valueOf window_start))
             (displayWidth - margin_left - margin_right) i = Inr pp"
  shows "js_le (positioned_project.x1 pp) (positioned_project.x2 pp) \<and>
         (\<forall>v. positioned_project.x3 pp = Some v \<longrightarrow> js_le (positioned_project.x2 pp) v)"
proof -
  let ?w = "displayWidth - margin_left - margin_right"
  have w: "0 \<le> ?w" by (simp add: displayWidth_def margin_left_def margin_right_def)
  from assms(1) obtain s e where se: "window_start = Date s" "window_end = Date e" "s < e"
    by (rule valueOf_less_Date)
  define dur :: rat where "dur = of_int e - of_int s"
  have dur: "0 < dur" using se(3) by (simp add: dur_def)
  have t: "js_sub (valueOf (Date e)) (valueOf (Date s)) = Num dur"
    by (simp add: dur_def)
  from assms(2,3) obtain a b where ab: "parseDate (project.tbeg p) = Date a"
      "parseDate (project.tend p) = Date b"
    by (metis date.exhaust)
  note f = processProject_fields [OF assms(4), unfolded se t]
  from f(1) have order: "a \<le> b"
    by (simp add: invalid_dates_def date_range_invalid_def ab)
  have "js_le (positioned_project.x1 pp) (positioned_project.x2 pp)"
    unfolding f(2) f(3) ab using dur w order by (rule date_x_mono)
  moreover have "js_le (positioned_project.x2 pp) v" if v: "positioned_project.x3 pp = Some v" for v
  proof -
    from v f(4) obtain tle where tle: "project.tailEnd p = Some tle" "tle \<noteq> []"
      "truthy (date_x (Date s) (Num dur) ?w (parseDate tle))"
      "v = Math_round (date_x (Date s) (Num dur) ?w (parseDate tle))"
      by (auto split: option.splits if_splits)
    from tle(3) obtain c where c: "parseDate tle = Date c"
      by (cases "parseDate tle") (simp_all add: date_x_def)
    with f(1) tle(1,2) have "b \<le> c"
      by (simp add: invalid_dates_def tail_end_invalid_def ab)
    with dur w show ?thesis unfolding f(3) tle(4) ab c by (rule date_x_mono)
  qed
  ultimately show ?thesis by blast
qed

theorem x_coordinates_ordered_witness:
  "js_less (valueOf (isoDate ''2020-01-01'')) (valueOf (isoDate ''2030-01-01'')) \<and>
   isoDate (project.tbeg short_tail_project) \<noteq> Invalid_Date \<and>
   isoDate (project.tend short_tail_project) \<noteq> Invalid_Date \<and>
   (\<exists>pp. processProject isoDate short_tail_project (isoDate ''2020-01-01'')
            (js_sub (valueOf (isoDate ''2030-01-01'')) (valueOf (isoDate ''2020-01-01'')))
            (displayWidth - margin_left - margin_right) None = Inr pp \<and>
          js_le (positioned_project.x1 pp) (positioned_project.x2 pp) \<and>
          (\<forall>v. positioned_project.x3 pp = Some v \<longrightarrow> js_le (positioned_project.x2 pp) v))"
proof -
  have a: "js_less (valueOf (isoDate ''2020-01-01'')) (valueOf (isoDate ''2030-01-01''))"
    by code_simp
  have b: "isoDate (project.tbeg short_tail_project) \<noteq> Invalid_Date"
    by code_simp
  have c: "isoDate (project.tend short_tail_project) \<noteq> Invalid_Date"
    by code_simp
  have "\<not> invalid_dates isoDate short_tail_project" by code_simp
  from processProject_valid [OF this]
  obtain pp where d: "processProject isoDate short_tail_project (isoDate ''2020-01-01'')
            (js_sub (valueOf (isoDate ''2030-01-01'')) (valueOf (isoDate ''2020-01-01'')))
            (displayWidth - margin_left - margin_right) None = Inr pp"
    by blast
  from x_coordinates_ordered [OF a b c d] a b c d show ?thesis by blast
qed

text \<open>
  C9, the claim as stated: \<open>x3\<close> is null for a tail whose computed coordinate
  \<open>margin.left + tailEndRatio * timelineWidth\<close> is exactly 0, and is that coordinate rounded
  for every other computed value. \<open>NaN\<close> is a computed value too, and as falsy as 0: in the
  empty window 2024-01-01..2024-01-01 the tail end 2024-01-01 has the ratio \<open>0 / 0\<close>, the
  coordinate is \<open>NaN\<close>, and \<open>x3\<close> is null.
\<close>

theorem nan_tail_x_is_null:
  "date_x (isoDate ''2024-01-01'')
     (js_sub (valueOf (isoDate ''2024-01-01'')) (valueOf (isoDate ''2024-01-01'')))
     (displayWidth - margin_left - margin_right) (isoDate ''2024-01-01'') = NaN \<and>
   (case processProject isoDate nan_tail_project (isoDate ''2024-01-01'')
           (js_sub (valueOf (isoDate ''2024-01-01'')) (valueOf (isoDate ''2024-01-01'')))
           (displayWidth - margin_left - margin_right) None of
      Inl e \<Rightarrow> False
    | Inr pp \<Rightarrow>
        positioned_project.tailEndDate pp = Some (isoDate ''2024-01-01'') \<and>
        positioned_project.x3 pp = None)"
  by code_simp

text \<open>
  C9, amended: there is a project whose tail end is after its end date, so that it passes
  the validation, and whose \<open>x3\<close> is null all the same (the tail end two days before a
  window of 17 days: 120 - 2/17 * 1020 = 0); in general \<open>x3\<close> is null whenever the
  computed coordinate of the tail end is exactly 0 or is \<open>NaN\<close>, and is that coordinate
  rounded to the nearest integer for every other computed value.
\<close>

theorem falsy_tail_x_is_null:
  "(case processProject isoDate zero_tail_project (isoDate ''2024-01-01'')
           (js_sub (valueOf (isoDate ''2024-01-18'')) (valueOf (isoDate ''2024-01-01'')))
           (displayWidth - margin_left - margin_right) None of
      Inl e \<Rightarrow> False
    | Inr pp \<Rightarrow>
        (case positioned_project.tailEndDate pp of
           None \<Rightarrow> False
         | Some t \<Rightarrow> js_less (valueOf (positioned_project.endDate pp)) (valueOf t)) \<and>
        positioned_project.x3 pp = None) \<and>
   (processProject parseDate p start totalDuration timelineWidth i = Inr pp \<longrightarrow>
    project.tailEnd p = Some tle \<longrightarrow> tle \<noteq> [] \<longrightarrow>
      positioned_project.x3 pp =
        (if date_x start totalDuration timelineWidth (parseDate tle) = Num 0 \<or>
            date_x start totalDuration timelineWidth (parseDate tle) = NaN
         then None
         else Some (Math_round (date_x start totalDuration timelineWidth (parseDate tle)))))"
proof -
  have truthy_iff: "truthy v \<longleftrightarrow> \<not> (v = Num 0 \<or> v = NaN)" for v
    by (cases v) auto
  have "case processProject isoDate zero_tail_project (isoDate ''2024-01-01'')
           (js_sub (valueOf (isoDate ''2024-01-18'')) (valueOf (isoDate ''2024-01-01'')))
           (displayWidth - margin_left - margin_right) None of
      Inl e \<Rightarrow> False
    | Inr pp \<Rightarrow>
        (case positioned_project.tailEndDate pp of
           None \<Rightarrow> False
         | Some t \<Rightarrow> js_less (valueOf (positioned_project.endDate pp)) (valueOf t)) \<and>
        positioned_project.x3 pp = None"
    by code_simp
  then show ?thesis
    by (auto simp: processProject_fields(4) truthy_iff)
qed

theorem falsy_tail_x_is_null_witness:
  "\<exists>pp. processProject isoDate short_tail_project (isoDate ''2020-01-01'')
            (js_sub (valueOf (isoDate ''2030-01-01'')) (valueOf (isoDate ''2020-01-01'')))
            (displayWidth - margin_left - margin_right) None = Inr pp \<and>
        project.tailEnd short_tail_project = Some ''2024-03-02'' \<and>
        positioned_project.x3 pp = Some (Num 545)"
proof -
  let ?s = "isoDate ''2020-01-01''"
  let ?t = "js_sub (valueOf (isoDate ''2030-01-01'')) (valueOf (isoDate ''2020-01-01''))"
  let ?w = "displayWidth - margin_left - margin_right"
  have "\<not> invalid_dates isoDate short_tail_project" by code_simp
  from processProject_valid [OF this]
  obtain pp where a: "processProject isoDate short_tail_project ?s ?t ?w None = Inr pp"
    by blast
  have b: "project.tailEnd short_tail_project = Some ''2024-03-02''" by code_simp
  have c: "date_x ?s ?t ?w (isoDate ''2024-03-02'') \<noteq> Num 0"
          "date_x ?s ?t ?w (isoDate ''2024-03-02'') \<noteq> NaN"
          "Math_round (date_x ?s ?t ?w (isoDate ''2024-03-02'')) = Num 545"
    by code_simp+
  from falsy_tail_x_is_null [of isoDate short_tail_project ?s ?t ?w None pp "''2024-03-02''"]
    a b c
  show ?thesis by auto
qed

subsection \<open>The pressure fallback\<close>

text \<open>
  C10. A project whose own \<open>pencilPressure\<close> is exactly 0 is not drawn with the pressure 0:
  its pressure is that of the dataset, and 0.85 when that one is 0 or absent. The same
  holds for an epic whose parsed \<open>pencilPressure\<close> is 0.
\<close>

theorem zero_pressure_falls_back:
  "(project.pencilPressure p = Some 0 \<longrightarrow>
      (\<forall>q. dataset.pencilPressure d = Some q \<and> q \<noteq> 0 \<longrightarrow> drawProjectLine_pressure d p = q) \<and>
      (dataset.pencilPressure d = Some 0 \<or> dataset.pencilPressure d = None \<longrightarrow>
         drawProjectLine_pressure d p = 85 / 100) \<and>
      drawProjectLine_pressure d p \<noteq> 0) \<and>
   (parseFloat (epic.pencilPressure e) = Num 0 \<longrightarrow>
      (\<forall>q. dataset.pencilPressure d = Some q \<and> q \<noteq> 0 \<longrightarrow> epicPressure parseFloat d e = Num q) \<and>
      (dataset.pencilPressure d = Some 0 \<or> dataset.pencilPressure d = None \<longrightarrow>
         epicPressure parseFloat d e = Num (85 / 100)) \<and>
      epicPressure parseFloat d e \<noteq> Num 0)"
  by (auto simp: drawProjectLine_pressure_def epicPressure_def or_num_def split: option.splits)

theorem zero_pressure_falls_back_witness:
  "project.pencilPressure zero_pressure_project = Some 0 \<and>
   decimalFloat (epic.pencilPressure zero_pressure_epic) = Num 0 \<and>
   dataset.pencilPressure zero_pressure_dataset = Some 0 \<and>
   drawProjectLine_pressure zero_pressure_dataset zero_pressure_project = 85 / 100 \<and>
   epicPressure decimalFloat zero_pressure_dataset zero_pressure_epic = Num (85 / 100) \<and>
   (case calculateTimelinePositions isoDate decimalFloat (Some zero_pressure_dataset) of
      Inl e \<Rightarrow> False
    | Inr sc \<Rightarrow> map positioned_epic.pencilPressure (scene.epics sc) = [Num (85 / 100)])"
proof -
  have a: "project.pencilPressure zero_pressure_project = Some 0" by code_simp
  have b: "decimalFloat (epic.pencilPressure zero_pressure_epic) = Num 0" by code_simp
  have c: "dataset.pencilPressure zero_pressure_dataset = Some 0" by code_simp
  have s: "case calculateTimelinePositions isoDate decimalFloat (Some zero_pressure_dataset) of
      Inl e \<Rightarrow> False
    | Inr sc \<Rightarrow> map positioned_epic.pencilPressure (scene.epics sc) = [Num (85 / 100)]"
    by code_simp
  from zero_pressure_falls_back
         [of zero_pressure_project zero_pressure_dataset decimalFloat zero_pressure_epic] a b c s
  show ?thesis by simp
qed

end
